theory Spec2Isabelle
  imports Complex_Main "HOL-Library.Word" "HOL-Library.Multiset"
begin

section \<open>Tilt Escape: level simulation and collision engine\<close>

text \<open>
  A shallow embedding of \<^verbatim>\<open>tilt_escape.hpp\<close> (namespace \<^verbatim>\<open>TiltEscape\<close>) and of the
  simulation part of \<^verbatim>\<open>Game.cpp\<close>.

  Numbers. A finite \<^verbatim>\<open>float\<close> value is the real number it denotes, and the fields of the
  entities hold finite values. The collision test, the hole test, \<^verbatim>\<open>vector_direction\<close>, the
  test for the end of the game and the conversions of the loader compute in binary32: every
  operation is the exact one followed by rounding to the nearest binary32 value, ties to
  even, with subnormal numbers, overflow to an infinity, and NaN (type \<open>f32\<close>). Zeros carry
  no sign: the one division by a zero in this code divides by a square root, which is +0.
  A dot product is a product, a product and a sum, without fused operations.
  \<^verbatim>\<open>Guard::update\<close> and the integration of the player are written with the exact
  operations; what is proved of them either does not depend on the values computed or is
  evaluated at inputs where the binary32 operations are exact.
  Unsigned 32-bit values (\<^verbatim>\<open>GLuint\<close>, \<^verbatim>\<open>glm::uvec2\<close>) are \<^typ>\<open>32 word\<close>.

  Randomness. \<^verbatim>\<open>std::rand()\<close> and the guard's \<^verbatim>\<open>std::mt19937\<close> are inputs: the loader
  reads the successive results of \<^verbatim>\<open>std::rand()\<close> from a sequence, and a guard update
  receives the value each generator would return if that update called it.
\<close>

subsection \<open>glm::vec2 with exact operations\<close>

datatype vec2 = Vec2 (vec_x: real) (vec_y: real)

text \<open>\<^verbatim>\<open>operator+\<close>, \<^verbatim>\<open>operator-\<close> on two vectors, and the vector-scalar operators, which
  act on both components.\<close>

definition vadd :: "vec2 \<Rightarrow> vec2 \<Rightarrow> vec2" where
  "vadd a b = Vec2 (vec_x a + vec_x b) (vec_y a + vec_y b)"

definition vsub :: "vec2 \<Rightarrow> vec2 \<Rightarrow> vec2" where
  "vsub a b = Vec2 (vec_x a - vec_x b) (vec_y a - vec_y b)"

definition vscale :: "vec2 \<Rightarrow> real \<Rightarrow> vec2" where
  "vscale a s = Vec2 (vec_x a * s) (vec_y a * s)"

definition vdiv_scalar :: "vec2 \<Rightarrow> real \<Rightarrow> vec2" where
  "vdiv_scalar a s = Vec2 (vec_x a / s) (vec_y a / s)"

text \<open>The member function \<^verbatim>\<open>vec2::length()\<close> of glm is the number of components of the
  vector type, not its Euclidean norm.\<close>

definition vec2_length :: "vec2 \<Rightarrow> nat" where
  "vec2_length v = 2"

text \<open>\<^verbatim>\<open>std::roundf\<close>: to the nearest integer, halfway cases away from zero.\<close>

definition roundf :: "real \<Rightarrow> real" where
  "roundf v = (if 0 \<le> v then of_int \<lfloor>v + 1 / 2\<rfloor> else of_int \<lceil>v - 1 / 2\<rceil>)"

subsection \<open>Binary32 arithmetic\<close>

text \<open>A value of type \<^verbatim>\<open>float\<close>: a finite number, an infinity or a NaN.\<close>

datatype f32 = Fin real | PInf | NInf | NaN

text \<open>Rounding to the nearest integer, ties to the even one.\<close>

definition round_even :: "real \<Rightarrow> int" where
  "round_even q =
     (let f = \<lfloor>q\<rfloor>; r = q - of_int f
      in if r < 1 / 2 then f else if r > 1 / 2 then f + 1
         else if even f then f else f + 1)"

text \<open>The exponent \<open>e\<close> of the binade of \<open>x\<close>, \<open>2\<^sup>e \<le> |x| < 2\<^sup>e\<^sup>+\<^sup>1\<close>, and -126 for the
  subnormal numbers and zero. The binary32 values of a binade are the multiples of
  \<open>2\<^sup>e\<^sup>-\<^sup>2\<^sup>3\<close>: \<open>round32\<close> rounds to the nearest of them, and \<open>rnd\<close> gives the result of
  an operation whose exact value is \<open>x\<close>, an infinity from \<open>2\<^sup>1\<^sup>2\<^sup>8\<close> on.\<close>

definition binade :: "real \<Rightarrow> int" where
  "binade x = (if x = 0 then - 126 else max \<lfloor>log 2 \<bar>x\<bar>\<rfloor> (- 126))"

definition round32 :: "real \<Rightarrow> real" where
  "round32 x = of_int (round_even (x / 2 powi (binade x - 23))) * 2 powi (binade x - 23)"

definition rnd :: "real \<Rightarrow> f32" where
  "rnd x =
     (let y = round32 x
      in if y \<ge> 2 ^ 128 then PInf else if y \<le> - (2 ^ 128) then NInf else Fin y)"

text \<open>The conversion of an unsigned integer (of 32 or 64 bits, so that the result is
  finite).\<close>

definition float_of_nat :: "nat \<Rightarrow> real" where
  "float_of_nat n = round32 (real n)"

text \<open>Negation, \<^verbatim>\<open>+\<close>, \<^verbatim>\<open>-\<close>, \<^verbatim>\<open>*\<close>, \<^verbatim>\<open>/\<close>, \<^verbatim>\<open>sqrt\<close> and \<^verbatim>\<open><\<close>, \<^verbatim>\<open>>\<close> of IEEE 754. A comparison
  with a NaN is false.\<close>

fun f32_neg :: "f32 \<Rightarrow> f32" where
  "f32_neg (Fin x) = Fin (- x)"
| "f32_neg PInf = NInf"
| "f32_neg NInf = PInf"
| "f32_neg NaN = NaN"

fun f32_add :: "f32 \<Rightarrow> f32 \<Rightarrow> f32" where
  "f32_add (Fin x) (Fin y) = rnd (x + y)"
| "f32_add NaN b = NaN"
| "f32_add a NaN = NaN"
| "f32_add PInf NInf = NaN"
| "f32_add NInf PInf = NaN"
| "f32_add PInf b = PInf"
| "f32_add a PInf = PInf"
| "f32_add NInf b = NInf"
| "f32_add a NInf = NInf"

definition f32_sub :: "f32 \<Rightarrow> f32 \<Rightarrow> f32" where
  "f32_sub a b = f32_add a (f32_neg b)"

text \<open>An infinity of the given sign (\<open>True\<close> for positive) times or divided by a finite
  number of the sign of \<open>x\<close>.\<close>

definition signed_inf :: "bool \<Rightarrow> real \<Rightarrow> f32" where
  "signed_inf positive x = (if (0 \<le> x) = positive then PInf else NInf)"

fun f32_mul :: "f32 \<Rightarrow> f32 \<Rightarrow> f32" where
  "f32_mul (Fin x) (Fin y) = rnd (x * y)"
| "f32_mul NaN b = NaN"
| "f32_mul a NaN = NaN"
| "f32_mul (Fin x) PInf = (if x = 0 then NaN else signed_inf True x)"
| "f32_mul (Fin x) NInf = (if x = 0 then NaN else signed_inf False x)"
| "f32_mul PInf (Fin y) = (if y = 0 then NaN else signed_inf True y)"
| "f32_mul NInf (Fin y) = (if y = 0 then NaN else signed_inf False y)"
| "f32_mul PInf PInf = PInf"
| "f32_mul PInf NInf = NInf"
| "f32_mul NInf PInf = NInf"
| "f32_mul NInf NInf = PInf"

fun f32_div :: "f32 \<Rightarrow> f32 \<Rightarrow> f32" where
  "f32_div (Fin x) (Fin y) =
     (if y = 0 then (if x = 0 then NaN else signed_inf True x) else rnd (x / y))"
| "f32_div NaN b = NaN"
| "f32_div a NaN = NaN"
| "f32_div (Fin x) PInf = Fin 0"
| "f32_div (Fin x) NInf = Fin 0"
| "f32_div PInf (Fin y) = signed_inf True y"
| "f32_div NInf (Fin y) = signed_inf False y"
| "f32_div PInf PInf = NaN"
| "f32_div PInf NInf = NaN"
| "f32_div NInf PInf = NaN"
| "f32_div NInf NInf = NaN"

fun f32_sqrt :: "f32 \<Rightarrow> f32" where
  "f32_sqrt (Fin x) = (if x < 0 then NaN else rnd (sqrt x))"
| "f32_sqrt PInf = PInf"
| "f32_sqrt NInf = NaN"
| "f32_sqrt NaN = NaN"

fun f32_lt :: "f32 \<Rightarrow> f32 \<Rightarrow> bool" where
  "f32_lt (Fin x) (Fin y) = (x < y)"
| "f32_lt NaN b = False"
| "f32_lt a NaN = False"
| "f32_lt a NInf = False"
| "f32_lt PInf b = False"
| "f32_lt NInf b = True"
| "f32_lt a PInf = True"

definition f32_gt :: "f32 \<Rightarrow> f32 \<Rightarrow> bool" where
  "f32_gt a b = f32_lt b a"

subsection \<open>glm::vec2 in binary32\<close>

datatype fvec2 = FVec2 (fvec_x: f32) (fvec_y: f32)

text \<open>A vector of finite components, the operators \<^verbatim>\<open>+\<close> and \<^verbatim>\<open>-\<close> on two vectors, the unary
  \<^verbatim>\<open>-\<close>, and the operators \<^verbatim>\<open>+\<close> and \<^verbatim>\<open>*\<close> of a vector and a scalar.\<close>

definition fvec :: "vec2 \<Rightarrow> fvec2" where
  "fvec v = FVec2 (Fin (vec_x v)) (Fin (vec_y v))"

definition fvec_add :: "fvec2 \<Rightarrow> fvec2 \<Rightarrow> fvec2" where
  "fvec_add a b = FVec2 (f32_add (fvec_x a) (fvec_x b)) (f32_add (fvec_y a) (fvec_y b))"

definition fvec_sub :: "fvec2 \<Rightarrow> fvec2 \<Rightarrow> fvec2" where
  "fvec_sub a b = FVec2 (f32_sub (fvec_x a) (fvec_x b)) (f32_sub (fvec_y a) (fvec_y b))"

definition fvec_neg :: "fvec2 \<Rightarrow> fvec2" where
  "fvec_neg a = FVec2 (f32_neg (fvec_x a)) (f32_neg (fvec_y a))"

definition fvec_add_scalar :: "fvec2 \<Rightarrow> f32 \<Rightarrow> fvec2" where
  "fvec_add_scalar a s = FVec2 (f32_add (fvec_x a) s) (f32_add (fvec_y a) s)"

definition fvec_scale :: "fvec2 \<Rightarrow> f32 \<Rightarrow> fvec2" where
  "fvec_scale a s = FVec2 (f32_mul (fvec_x a) s) (f32_mul (fvec_y a) s)"

text \<open>The free functions of glm: \<^verbatim>\<open>dot\<close> (the sum of the two products), \<^verbatim>\<open>length\<close>
  (\<^verbatim>\<open>sqrt(dot(v, v))\<close>), \<^verbatim>\<open>inversesqrt\<close> (\<^verbatim>\<open>1 / sqrt(x)\<close>), \<^verbatim>\<open>normalize\<close>
  (\<^verbatim>\<open>v * inversesqrt(dot(v, v))\<close>), \<^verbatim>\<open>min\<close> (\<^verbatim>\<open>(y < x) ? y : x\<close>), \<^verbatim>\<open>max\<close>
  (\<^verbatim>\<open>(x < y) ? y : x\<close>) and \<^verbatim>\<open>clamp\<close> (\<^verbatim>\<open>min(max(x, lo), hi)\<close> per component).\<close>

definition glm_dot :: "fvec2 \<Rightarrow> fvec2 \<Rightarrow> f32" where
  "glm_dot a b = f32_add (f32_mul (fvec_x a) (fvec_x b)) (f32_mul (fvec_y a) (fvec_y b))"

definition glm_length :: "fvec2 \<Rightarrow> f32" where
  "glm_length v = f32_sqrt (glm_dot v v)"

definition glm_inversesqrt :: "f32 \<Rightarrow> f32" where
  "glm_inversesqrt x = f32_div (Fin 1) (f32_sqrt x)"

definition glm_normalize :: "fvec2 \<Rightarrow> fvec2" where
  "glm_normalize v = fvec_scale v (glm_inversesqrt (glm_dot v v))"

definition glm_min :: "f32 \<Rightarrow> f32 \<Rightarrow> f32" where
  "glm_min x y = (if f32_lt y x then y else x)"

definition glm_max :: "f32 \<Rightarrow> f32 \<Rightarrow> f32" where
  "glm_max x y = (if f32_lt x y then y else x)"

definition glm_clamp :: "fvec2 \<Rightarrow> fvec2 \<Rightarrow> fvec2 \<Rightarrow> fvec2" where
  "glm_clamp v lo hi =
     FVec2 (glm_min (glm_max (fvec_x v) (fvec_x lo)) (fvec_x hi))
           (glm_min (glm_max (fvec_y v) (fvec_y lo)) (fvec_y hi))"

subsection \<open>Entities\<close>

record Entity =
  position :: vec2

record Wall = Entity +
  wall_size :: vec2

record Player = Entity +
  radius :: real
  velocity :: vec2

text \<open>The two constructors of \<^verbatim>\<open>Player\<close>.\<close>

definition Player_default :: Player where
  "Player_default = \<lparr>position = Vec2 0 0, Player.radius = 1 / 2, Player.velocity = Vec2 0 0\<rparr>"

definition Player_ctor :: "vec2 \<Rightarrow> real \<Rightarrow> Player" where
  "Player_ctor pos r = \<lparr>position = pos, Player.radius = r, Player.velocity = Vec2 0 0\<rparr>"

definition Wall_ctor :: "vec2 \<Rightarrow> vec2 \<Rightarrow> Wall" where
  "Wall_ctor pos sz = \<lparr>position = pos, wall_size = sz\<rparr>"

datatype LookDirection = UP | UP_LEFT | LEFT | DOWN_LEFT | DOWN | DOWN_RIGHT | RIGHT | UP_RIGHT

record GuardVision =
  radius :: real
  distance :: real
  look_direction :: LookDirection

definition GuardVision_default :: GuardVision where
  "GuardVision_default =
     \<lparr>GuardVision.radius = 1 / 2, distance = 1, look_direction = LookDirection.DOWN_RIGHT\<rparr>"

text \<open>The guard. Its \<^verbatim>\<open>std::mt19937 mt\<close> is not a field here: the value \<^verbatim>\<open>mt()\<close> returns
  is an argument of the update.\<close>

record Guard = Entity +
  guard_id :: int
  radius :: real
  fov :: GuardVision
  time_looking_in_direction :: real
  look_thresh :: real
  current_waypoint :: vec2
  next_waypoint :: vec2
  wait_thresh :: real
  time_at_waypoint :: real
  velocity :: vec2
  waypoints :: "vec2 list"

text \<open>What the program does not determine: the successive results of \<^verbatim>\<open>std::rand()\<close>,
  and the values of the two members the \<^verbatim>\<open>Guard\<close> constructor leaves uninitialised
  (\<^verbatim>\<open>next_waypoint\<close> and \<^verbatim>\<open>time_at_waypoint\<close>).\<close>

record Runtime =
  rand_seq :: "nat \<Rightarrow> nat"
  uninit_vec2 :: vec2
  uninit_float :: real

definition RAND_MAX :: nat where
  "RAND_MAX = 2147483647"

text \<open>\<^verbatim>\<open>2.0f * ((double)std::rand() / RAND_MAX)\<close> for a result \<open>r\<close> of \<^verbatim>\<open>std::rand()\<close>.\<close>

definition rand_thresh :: "nat \<Rightarrow> real" where
  "rand_thresh r = 2 * (real r / real RAND_MAX)"

text \<open>The constructor \<^verbatim>\<open>Guard(_position, _radius, _fov)\<close>; \<open>r1\<close> and \<open>r2\<close> are the two
  results of \<^verbatim>\<open>std::rand()\<close> it draws, in this order.\<close>

definition Guard_ctor :: "Runtime \<Rightarrow> nat \<Rightarrow> nat \<Rightarrow> vec2 \<Rightarrow> real \<Rightarrow> GuardVision \<Rightarrow> Guard" where
  "Guard_ctor rt r1 r2 pos rad vision =
     \<lparr>position = pos,
      guard_id = - 1,
      Guard.radius = rad,
      fov = vision,
      time_looking_in_direction = 0,
      look_thresh = rand_thresh r1,
      current_waypoint = pos,
      next_waypoint = uninit_vec2 rt,
      wait_thresh = rand_thresh r2,
      time_at_waypoint = uninit_float rt,
      Guard.velocity = Vec2 0 0,
      waypoints = []\<rparr>"

definition at_next_waypoint :: "Guard \<Rightarrow> bool" where
  "at_next_waypoint g \<longleftrightarrow>
     roundf (vec_x (position g)) = vec_x (next_waypoint g) \<and>
     roundf (vec_y (position g)) = vec_y (next_waypoint g)"

definition at_current_waypoint :: "Guard \<Rightarrow> bool" where
  "at_current_waypoint g \<longleftrightarrow>
     roundf (vec_x (position g)) = vec_x (current_waypoint g) \<and>
     roundf (vec_y (position g)) = vec_y (current_waypoint g)"

text \<open>\<^verbatim>\<open>static_cast<LookDirection>\<close> of a value in \<open>0..7\<close>.\<close>

definition LookDirection_of :: "nat \<Rightarrow> LookDirection" where
  "LookDirection_of n =
     (if n = 0 then LookDirection.UP
      else if n = 1 then LookDirection.UP_LEFT
      else if n = 2 then LookDirection.LEFT
      else if n = 3 then LookDirection.DOWN_LEFT
      else if n = 4 then LookDirection.DOWN
      else if n = 5 then LookDirection.DOWN_RIGHT
      else if n = 6 then LookDirection.RIGHT
      else LookDirection.UP_RIGHT)"

text \<open>\<^verbatim>\<open>change_look_dir\<close>; \<open>mt_out\<close> is the result of \<^verbatim>\<open>mt()\<close>, \<open>rand_out\<close> that of
  \<^verbatim>\<open>std::rand()\<close>.\<close>

definition change_look_dir :: "32 word \<Rightarrow> nat \<Rightarrow> Guard \<Rightarrow> Guard" where
  "change_look_dir mt_out rand_out g =
     g\<lparr>time_looking_in_direction := 0,
       fov := (fov g)\<lparr>look_direction := LookDirection_of (unat mt_out mod 8)\<rparr>,
       look_thresh := rand_thresh rand_out\<rparr>"

datatype error = Empty_deque_access | Index_out_of_bounds

text \<open>\<^verbatim>\<open>Guard::update\<close>, in the order of the source. First the part under
  \<^verbatim>\<open>if (at_current_waypoint())\<close>: \<^verbatim>\<open>front()\<close> and \<^verbatim>\<open>pop_front()\<close> on an empty deque are
  undefined behaviour, an error here. The division is by \<^verbatim>\<open>velocity.length()\<close>, the
  member function.\<close>

definition wait_at_waypoint :: "real \<Rightarrow> Guard \<Rightarrow> error + Guard" where
  "wait_at_waypoint elapsed g =
     (let g1 = g\<lparr>time_at_waypoint := time_at_waypoint g + elapsed\<rparr> in
      if time_at_waypoint g1 \<ge> wait_thresh g1 then
        (case waypoints g1 of
           [] \<Rightarrow> Inl Empty_deque_access
         | w # ws \<Rightarrow>
             let g2 = g1\<lparr>next_waypoint := w, waypoints := ws @ [w]\<rparr>;
                 g3 = g2\<lparr>Guard.velocity := vsub (next_waypoint g2) (current_waypoint g2)\<rparr>
             in Inr (g3\<lparr>Guard.velocity :=
                          vdiv_scalar (Guard.velocity g3) (real (vec2_length (Guard.velocity g3)))\<rparr>))
      else Inr g1)"

text \<open>The rest of the update, from \<^verbatim>\<open>if (!at_current_waypoint() && !at_next_waypoint())\<close>
  on.\<close>

definition move_and_look :: "real \<Rightarrow> 32 word \<Rightarrow> nat \<Rightarrow> Guard \<Rightarrow> Guard" where
  "move_and_look elapsed mt_out rand_out g =
     (let g1 = (if \<not> at_current_waypoint g \<and> \<not> at_next_waypoint g
                then g\<lparr>Guard.velocity := vsub (next_waypoint g) (position g)\<rparr> else g);
          g2 = (if at_next_waypoint g1 \<and> \<not> at_current_waypoint g1
                then g1\<lparr>Guard.velocity := Vec2 0 0, time_at_waypoint := 0,
                        current_waypoint := next_waypoint g1\<rparr>
                else g1);
          g3 = g2\<lparr>time_looking_in_direction := time_looking_in_direction g2 + elapsed\<rparr>
      in if time_looking_in_direction g3 \<ge> look_thresh g3
         then change_look_dir mt_out rand_out g3 else g3)"

definition Guard_update :: "real \<Rightarrow> 32 word \<Rightarrow> nat \<Rightarrow> Guard \<Rightarrow> error + Guard" where
  "Guard_update elapsed mt_out rand_out g =
     (let g1 = g\<lparr>position := vadd (position g) (vscale (Guard.velocity g) elapsed)\<rparr> in
      case (if at_current_waypoint g1 then wait_at_waypoint elapsed g1 else Inr g1) of
        Inl e \<Rightarrow> Inl e
      | Inr g2 \<Rightarrow> Inr (move_and_look elapsed mt_out rand_out g2))"

text \<open>A sequence of frames: each gives the elapsed time and the two random results.\<close>

fun Guard_updates :: "(real \<times> 32 word \<times> nat) list \<Rightarrow> Guard \<Rightarrow> error + Guard" where
  "Guard_updates [] g = Inr g"
| "Guard_updates ((elapsed, mt_out, rand_out) # frames) g =
     (case Guard_update elapsed mt_out rand_out g of
        Inl e \<Rightarrow> Inl e
      | Inr g' \<Rightarrow> Guard_updates frames g')"

subsection \<open>Collision direction\<close>

text \<open>\<^verbatim>\<open>enum class Direction\<close>. The last constructor stands for a \<^verbatim>\<open>Direction\<close> object
  whose value is none of the four enumerators, as a cast can produce.\<close>

datatype Direction = UP | RIGHT | DOWN | LEFT | Direction_value "32 word"

text \<open>The cast \<^verbatim>\<open>(Direction) best_match\<close> of a \<^verbatim>\<open>GLuint\<close>.\<close>

definition Direction_of :: "32 word \<Rightarrow> Direction" where
  "Direction_of w =
     (if w = 0 then Direction.UP
      else if w = 1 then Direction.RIGHT
      else if w = 2 then Direction.DOWN
      else if w = 3 then Direction.LEFT
      else Direction_value w)"

type_synonym Collision = "bool \<times> Direction \<times> fvec2"

definition compass :: "fvec2 list" where
  "compass = [FVec2 (Fin 0) (Fin 1), FVec2 (Fin 1) (Fin 0),
              FVec2 (Fin 0) (Fin (- 1)), FVec2 (Fin (- 1)) (Fin 0)]"

text \<open>\<^verbatim>\<open>glm::dot(glm::normalize(target), compass[i])\<close>.\<close>

definition dot_product :: "fvec2 \<Rightarrow> nat \<Rightarrow> f32" where
  "dot_product target i = glm_dot (glm_normalize target) (compass ! i)"

text \<open>The loop of \<^verbatim>\<open>vector_direction\<close>: \<open>i\<close> is the loop counter, \<open>mx\<close> the running maximum
  \<^verbatim>\<open>max\<close>.\<close>

function vector_direction_loop :: "fvec2 \<Rightarrow> nat \<Rightarrow> f32 \<Rightarrow> 32 word \<Rightarrow> 32 word" where
  "vector_direction_loop target i mx best_match =
     (if i < 4 then
        (if f32_gt (dot_product target i) mx
         then vector_direction_loop target (i + 1) (dot_product target i) (of_nat i)
         else vector_direction_loop target (i + 1) mx best_match)
      else best_match)"
  by pat_completeness auto
termination
  by (relation "measure (\<lambda>(target, i, mx, best_match). 4 - i)") auto

text \<open>\<^verbatim>\<open>GLfloat max = 0.0f; GLuint best_match = -1;\<close> and the cast of the result.\<close>

definition vector_direction :: "fvec2 \<Rightarrow> Direction" where
  "vector_direction target = Direction_of (vector_direction_loop target 0 (Fin 0) (- 1))"

subsection \<open>Level\<close>

record Level =
  level_matrix :: "char list list"
  walls :: "Wall list"
  player :: Player
  guards :: "Guard list"
  holes :: "vec2 list"

text \<open>\<^verbatim>\<open>Level()\<close>: empty containers and a default-constructed player.\<close>

definition Level_ctor :: Level where
  "Level_ctor = \<lparr>level_matrix = [], walls = [], player = Player_default, guards = [], holes = []\<rparr>"


fun get_guard_index_from :: "nat \<Rightarrow> Guard list \<Rightarrow> int \<Rightarrow> int" where
  "get_guard_index_from i [] gid = - 1"
| "get_guard_index_from i (g # gs) gid =
     (if guard_id g = gid then int i else get_guard_index_from (Suc i) gs gid)"

definition get_guard_index :: "Level \<Rightarrow> int \<Rightarrow> int" where
  "get_guard_index lvl gid = get_guard_index_from 0 (guards lvl) gid"

definition WALL_SIZE :: vec2 where
  "WALL_SIZE = Vec2 1 1"

definition isdigit :: "char \<Rightarrow> bool" where
  "isdigit c \<longleftrightarrow> 48 \<le> (of_char c :: nat) \<and> (of_char c :: nat) \<le> 57"

text \<open>The successive results of \<^verbatim>\<open>std::getline\<close> on a file with the given content: the
  lines without their newline; a last line needs no newline, and nothing follows a final
  newline.\<close>

fun getlines_from :: "string \<Rightarrow> string \<Rightarrow> string list" where
  "getlines_from line [] = (if line = [] then [] else [line])"
| "getlines_from line (c # cs) =
     (if c = CHR 0x0A then line # getlines_from [] cs else getlines_from (line @ [c]) cs)"

definition getlines :: "string \<Rightarrow> string list" where
  "getlines content = getlines_from [] content"

text \<open>The body of the inner loop of \<^verbatim>\<open>load_level\<close> for the character \<open>c\<close> at column \<open>i\<close>.
  The state is the level and the number of results of \<^verbatim>\<open>std::rand()\<close> drawn so far. The row
  index is \<^verbatim>\<open>level_matrix.size()\<close>, which the loop over one line leaves unchanged. The
  constructor \<^verbatim>\<open>glm::vec2(i, level_matrix.size())\<close> converts both numbers to \<^verbatim>\<open>float\<close>.\<close>

definition load_cell :: "Runtime \<Rightarrow> nat \<Rightarrow> char \<Rightarrow> Level \<times> nat \<Rightarrow> Level \<times> nat" where
  "load_cell rt i c = (\<lambda>(lvl, k).
     let pos = Vec2 (float_of_nat i) (float_of_nat (length (level_matrix lvl)));
         lvl1 = (if c = CHR ''#''
                 then lvl\<lparr>walls := walls lvl @ [Wall_ctor pos WALL_SIZE]\<rparr> else lvl);
         lvl2 = (if c = CHR ''P''
                 then lvl1\<lparr>player := Player_ctor pos (1 / 2)\<rparr> else lvl1);
         lvl3 = (if c = CHR ''H''
                 then lvl2\<lparr>holes := holes lvl2 @ [pos]\<rparr> else lvl2)
     in if isdigit c then
          (let gid = int (of_char c) - 48;
               guard_index = get_guard_index lvl3 gid
           in if guard_index \<ge> 0 then
                (let g = guards lvl3 ! nat guard_index in
                 (lvl3\<lparr>guards := (guards lvl3)[nat guard_index := g\<lparr>waypoints := waypoints g @ [pos]\<rparr>]\<rparr>,
                  k))
              else
                (let g0 = Guard_ctor rt (rand_seq rt k) (rand_seq rt (k + 1)) pos (1 / 2)
                            GuardVision_default;
                     new_guard = g0\<lparr>guard_id := gid, current_waypoint := pos,
                                   next_waypoint := pos, waypoints := waypoints g0 @ [pos]\<rparr>
                 in (lvl3\<lparr>guards := guards lvl3 @ [new_guard]\<rparr>, k + 2)))
        else (lvl3, k))"

text \<open>The inner loop from column \<open>i\<close> on, and the outer loop: after a line is scanned, its
  characters (the buffer \<^verbatim>\<open>row\<close>) become the next row of the matrix.\<close>

fun load_line :: "Runtime \<Rightarrow> nat \<Rightarrow> string \<Rightarrow> Level \<times> nat \<Rightarrow> Level \<times> nat" where
  "load_line rt i [] s = s"
| "load_line rt i (c # cs) s = load_line rt (Suc i) cs (load_cell rt i c s)"

fun load_lines :: "Runtime \<Rightarrow> string list \<Rightarrow> Level \<times> nat \<Rightarrow> Level \<times> nat" where
  "load_lines rt [] s = s"
| "load_lines rt (line # rest) s =
     load_lines rt rest
       (case load_line rt 0 line s of
          (lvl, k) \<Rightarrow> (lvl\<lparr>level_matrix := level_matrix lvl @ [line]\<rparr>, k))"

text \<open>\<^verbatim>\<open>load_level\<close>; \<open>file\<close> is the content of the file the name resolves to, \<open>None\<close> when it
  cannot be opened (the message on \<^verbatim>\<open>std::cerr\<close> is not modelled).\<close>

definition load_level :: "Runtime \<Rightarrow> string option \<Rightarrow> Level \<times> nat \<Rightarrow> Level \<times> nat" where
  "load_level rt file s =
     (case file of None \<Rightarrow> s | Some content \<Rightarrow> load_lines rt (getlines content) s)"

text \<open>\<^verbatim>\<open>Level::at(row, col)\<close> (the name \<open>at\<close> is taken by the library). Both casts to
  \<^verbatim>\<open>Uint32\<close> act on non-negative values. The column is compared with the size of row 0;
  \<^verbatim>\<open>level_matrix[row][col]\<close> with \<open>col\<close> beyond the size of that row is undefined behaviour,
  an error here.\<close>

definition Level_at :: "Level \<Rightarrow> int \<Rightarrow> int \<Rightarrow> error + char" where
  "Level_at lvl row col =
     (if row \<ge> 0 \<and> col \<ge> 0 then
        (if nat row < length (level_matrix lvl) then
           (if nat col < length (level_matrix lvl ! 0) then
              (if nat col < length (level_matrix lvl ! nat row)
               then Inr (level_matrix lvl ! nat row ! nat col)
               else Inl Index_out_of_bounds)
            else Inr (CHR 0x00))
         else Inr (CHR 0x00))
      else Inr (CHR 0x00))"

definition check_wall_collision :: "Level \<Rightarrow> Wall \<Rightarrow> Collision" where
  "check_wall_collision lvl wall =
     (let player_center =
            fvec_add_scalar (fvec (position (player lvl))) (Fin (Player.radius (player lvl)));
          aabb_half_extents = FVec2 (f32_div (Fin (vec_x (wall_size wall))) (Fin 2))
                                    (f32_div (Fin (vec_y (wall_size wall))) (Fin 2));
          aabb_center = FVec2 (f32_add (Fin (vec_x (position wall))) (fvec_x aabb_half_extents))
                              (f32_add (Fin (vec_y (position wall))) (fvec_y aabb_half_extents));
          difference = fvec_sub player_center aabb_center;
          clamped = glm_clamp difference (fvec_neg aabb_half_extents) aabb_half_extents;
          closest = fvec_add aabb_center clamped;
          difference = fvec_sub closest player_center
      in if f32_lt (glm_length difference) (Fin (Player.radius (player lvl)))
         then (True, vector_direction difference, difference)
         else (False, Direction.UP, FVec2 (Fin 0) (Fin 0)))"



subsection \<open>Game\<close>

datatype uvec2 = UVec2 (uvec_x: "32 word") (uvec_y: "32 word")

record Controls =
  tilt_left :: bool
  tilt_right :: bool
  tilt_up :: bool
  tilt_down :: bool

record Game =
  board_size :: uvec2
  controls :: Controls
  player_acceleration :: vec2
  gravity :: real
  level_index :: int
  level :: Level

definition TILT_ANGLE :: real where
  "TILT_ANGLE = 45"

text \<open>\<^verbatim>\<open>std::sin\<close> takes its argument in radians, as \<^term>\<open>sin\<close> does.\<close>

definition calculate_acceleration :: "real \<Rightarrow> real \<Rightarrow> real" where
  "calculate_acceleration incline_angle grav = (2 / 3) * grav * sin incline_angle"

definition calculate_displacement :: "real \<Rightarrow> vec2 \<Rightarrow> vec2 \<Rightarrow> vec2" where
  "calculate_displacement time vel acceleration =
     vadd (vscale vel time) (vscale (vscale acceleration (1 / 2)) (time ^ 2))"


text \<open>The physics of \<^verbatim>\<open>Game::update\<close>: the acceleration chosen from the tilt flags by the
  four \<^verbatim>\<open>if\<close> statements, in their order.\<close>

definition tilt_acceleration :: "Game \<Rightarrow> vec2" where
  "tilt_acceleration g =
     (let acc_x = 0;
          acc_y = 0;
          acc_x = (if tilt_left (controls g)
                   then calculate_acceleration TILT_ANGLE (gravity g) else acc_x);
          acc_x = (if tilt_right (controls g)
                   then calculate_acceleration (- TILT_ANGLE) (gravity g) else acc_x);
          acc_y = (if tilt_up (controls g)
                   then calculate_acceleration (- TILT_ANGLE) (gravity g) else acc_y);
          acc_y = (if tilt_down (controls g)
                   then calculate_acceleration TILT_ANGLE (gravity g) else acc_y)
      in Vec2 acc_x acc_y)"

text \<open>The statements that follow, up to the assignment of the new position (before the
  walls are resolved).\<close>

definition integrate_player :: "real \<Rightarrow> Game \<Rightarrow> Game" where
  "integrate_player elapsed g =
     (let g1 = g\<lparr>player_acceleration := tilt_acceleration g\<rparr>;
          p = player (level g1);
          displacement = calculate_displacement elapsed (Player.velocity p) (player_acceleration g1);
          p1 = p\<lparr>Player.velocity :=
                   vadd (Player.velocity p) (vscale (player_acceleration g1) elapsed)\<rparr>;
          next_pos_x = vec_x (position p1) + vec_x displacement;
          next_pos_y = vec_y (position p1) + vec_y displacement;
          p2 = p1\<lparr>position := Vec2 next_pos_x next_pos_y\<rparr>
      in g1\<lparr>level := (level g1)\<lparr>player := p2\<rparr>\<rparr>)"

section \<open>Specification predicates and concrete inputs\<close>

subsection \<open>Predicates\<close>





text \<open>A guard at rest whose route holds nothing but its own position, which is also its
  current and its next waypoint: the state of a guard whose digit occurs once in the map.\<close>

definition stationary :: "Guard \<Rightarrow> bool" where
  "stationary g \<longleftrightarrow>
     waypoints g \<noteq> [] \<and> set (waypoints g) = {position g} \<and>
     current_waypoint g = position g \<and> next_waypoint g = position g \<and>
     Guard.velocity g = Vec2 0 0"

text \<open>The circle and the box of the collision test, in binary32: the centre the test uses
  for the player, the half extents and the centre of the box, a coordinate clamped to the
  interval from \<open>-h\<close> to \<open>h\<close>, the point of the box the test calls closest (the box centre plus
  the clamped difference), the vector from the circle centre to that point, and the
  difference of the two centres.\<close>

definition circle_center :: "Player \<Rightarrow> fvec2" where
  "circle_center p =
     FVec2 (rnd (vec_x (position p) + Player.radius p))
           (rnd (vec_y (position p) + Player.radius p))"

definition box_half_extents :: "Wall \<Rightarrow> fvec2" where
  "box_half_extents wall =
     FVec2 (rnd (vec_x (wall_size wall) / 2)) (rnd (vec_y (wall_size wall) / 2))"

definition box_center :: "Wall \<Rightarrow> fvec2" where
  "box_center wall = fvec_add (fvec (position wall)) (box_half_extents wall)"

definition clamp_component :: "f32 \<Rightarrow> f32 \<Rightarrow> f32" where
  "clamp_component x h =
     (let raised = (if f32_lt x (f32_neg h) then f32_neg h else x)
      in if f32_lt h raised then h else raised)"

definition closest_point :: "Wall \<Rightarrow> fvec2 \<Rightarrow> fvec2" where
  "closest_point wall c =
     (let d = fvec_sub c (box_center wall)
      in fvec_add (box_center wall)
           (FVec2 (clamp_component (fvec_x d) (fvec_x (box_half_extents wall)))
                  (clamp_component (fvec_y d) (fvec_y (box_half_extents wall)))))"

definition center_to_closest :: "Player \<Rightarrow> Wall \<Rightarrow> fvec2" where
  "center_to_closest p wall =
     fvec_sub (closest_point wall (circle_center p)) (circle_center p)"

definition raw_difference :: "Player \<Rightarrow> Wall \<Rightarrow> fvec2" where
  "raw_difference p wall = fvec_sub (circle_center p) (box_center wall)"

text \<open>The four enumerators of \<^verbatim>\<open>Direction\<close> in the order of the compass array. Of four
  binary32 values \<open>d 0\<close>, ..., \<open>d 3\<close>: the index \<open>i\<close> is the first at which they are greatest and
  positive (no value exceeds \<open>d i\<close>, and no earlier value equals it); none of them is
  positive (a NaN is not). The invariant of the loop of \<^verbatim>\<open>vector_direction\<close> before the
  iteration \<open>i\<close>: either nothing was positive so far, or the best match is the first index at
  which the values seen are greatest, and the running maximum its value.\<close>

definition cardinals :: "Direction list" where
  "cardinals = [Direction.UP, Direction.RIGHT, Direction.DOWN, Direction.LEFT]"

definition first_best :: "(nat \<Rightarrow> f32) \<Rightarrow> nat \<Rightarrow> bool" where
  "first_best d i \<longleftrightarrow>
     i < 4 \<and> f32_gt (d i) (Fin 0) \<and> (\<forall>j<4. \<not> f32_gt (d j) (d i)) \<and> (\<forall>j<i. d j \<noteq> d i)"

definition none_positive :: "(nat \<Rightarrow> f32) \<Rightarrow> bool" where
  "none_positive d \<longleftrightarrow> (\<forall>j<4. \<not> f32_gt (d j) (Fin 0))"

definition loop_inv :: "(nat \<Rightarrow> f32) \<Rightarrow> nat \<Rightarrow> f32 \<Rightarrow> 32 word \<Rightarrow> bool" where
  "loop_inv d i mx b \<longleftrightarrow>
     (b = - 1 \<and> mx = Fin 0 \<and> (\<forall>j<i. \<not> f32_gt (d j) (Fin 0))) \<or>
     (\<exists>k<i. b = of_nat k \<and> mx = d k \<and> f32_gt (d k) (Fin 0) \<and>
        (\<forall>j<i. \<not> f32_gt (d j) (d k)) \<and> (\<forall>j<k. d j \<noteq> d k))"



text \<open>The position the loader gives to the cell at column \<open>c\<close> of row \<open>r\<close>. The positions of
  the cells that hold a given character: in one line of row \<open>r\<close> from column \<open>i\<close> on, left
  to right, and in a list of lines from row \<open>r\<close> on, line after line.\<close>

definition cell_position :: "nat \<Rightarrow> nat \<Rightarrow> vec2" where
  "cell_position c r = Vec2 (float_of_nat c) (float_of_nat r)"

definition line_cells :: "char \<Rightarrow> nat \<Rightarrow> nat \<Rightarrow> string \<Rightarrow> vec2 list" where
  "line_cells ch r i line =
     map (\<lambda>(c, x). cell_position c r) (filter (\<lambda>(c, x). x = ch) (enumerate i line))"


subsection \<open>Concrete inputs\<close>

text \<open>A run in which every \<^verbatim>\<open>std::rand()\<close> returns 0 and the uninitialised members hold 0.\<close>

definition quiet_runtime :: Runtime where
  "quiet_runtime = \<lparr>rand_seq = (\<lambda>k. 0), uninit_vec2 = Vec2 0 0, uninit_float = 0\<rparr>"

text \<open>The guard of the one-line map \<^verbatim>\<open>.1\<close>, and the guard of the one-line map \<^verbatim>\<open>1...1\<close>,
  whose route goes from column 0 to column 4.\<close>

definition lone_guard :: Guard where
  "lone_guard = hd (guards (fst (load_level quiet_runtime (Some ''.1'') (Level_ctor, 0))))"

definition patrol_guard :: Guard where
  "patrol_guard = hd (guards (fst (load_level quiet_runtime (Some ''1...1'') (Level_ctor, 0))))"


text \<open>A level with the player (of radius 0.5) at a given position, and the unit box at the
  origin.\<close>

definition player_level :: "vec2 \<Rightarrow> Level" where
  "player_level pos = Level_ctor\<lparr>player := Player_ctor pos (1 / 2)\<rparr>"

definition unit_wall :: Wall where
  "unit_wall = Wall_ctor (Vec2 0 0) (Vec2 1 1)"

text \<open>Map files: of the two lines \<^verbatim>\<open>ab\<close> and \<^verbatim>\<open>c\<close>; of the lines \<^verbatim>\<open>a\<close> and \<^verbatim>\<open>bc\<close>; a
  map with one player, one wall and one hole; a map with two players; a map of one line
  with a wall at column 16777217, after that many empty cells.\<close>

definition ragged_file :: string where
  "ragged_file = ''ab'' @ [CHR 0x0A] @ ''c''"

definition widening_file :: string where
  "widening_file = ''a'' @ [CHR 0x0A] @ ''bc''"

definition small_map :: string where
  "small_map = ''.P.'' @ [CHR 0x0A] @ ''..#'' @ [CHR 0x0A] @ ''H..''"



text \<open>A game on the default board of 5 by 4 cells with the player at a given position, no
  tilt, and the default gravity; the same game on a board of 16777218 by 4 cells.\<close>

definition board_game :: "vec2 \<Rightarrow> Game" where
  "board_game pos =
     \<lparr>board_size = UVec2 5 4,
      controls = \<lparr>tilt_left = False, tilt_right = False, tilt_up = False, tilt_down = False\<rparr>,
      player_acceleration = Vec2 0 0, gravity = - 98 / 10, level_index = 0,
      level = Level_ctor\<lparr>player := Player_ctor pos (1 / 2)\<rparr>\<rparr>"


text \<open>The game on the default board with the player at (2, 2) and the board tilted to the
  left.\<close>

definition tilted_game :: Game where
  "tilted_game =
     (board_game (Vec2 2 2))\<lparr>controls :=
        \<lparr>tilt_left = True, tilt_right = False, tilt_up = False, tilt_down = False\<rparr>\<rparr>"

section \<open>Properties\<close>

subsection \<open>Binary32 rounding\<close>

text \<open>The binade of a number between two powers of two, and the rounding there.\<close>


lemma binade_eq:
  assumes "2 powi e \<le> \<bar>x\<bar>" "\<bar>x\<bar> < 2 powi (e + 1)" "- 126 \<le> e"
  shows "binade x = e"
proof -
  have pos: "0 < \<bar>x\<bar>" using assms(1) zero_less_power_int [of "2::real" e] by linarith
  have p: "(2::real) powr real_of_int k = 2 powi k" for k
    by (rule powr_real_of_int') simp_all
  have "(\<lfloor>log 2 \<bar>x\<bar>\<rfloor> = e) =
      (2 powr real_of_int e \<le> \<bar>x\<bar> \<and> \<bar>x\<bar> < 2 powr real_of_int (e + 1))"
    by (rule floor_log_eq_powr_iff [OF pos]) simp
  then have "\<lfloor>log 2 \<bar>x\<bar>\<rfloor> = e"
    unfolding p using assms(1,2) by simp
  with pos assms(3) show ?thesis by (auto simp: binade_def)
qed

lemma binade_subnormal:
  assumes "\<bar>x\<bar> < 2 powi (- 126)"
  shows "binade x = - 126"
proof (cases "x = 0")
  case True
  then show ?thesis by (simp add: binade_def)
next
  case False
  then have pos: "0 < \<bar>x\<bar>" by simp
  have "\<lfloor>log 2 \<bar>x\<bar>\<rfloor> < - 126"
  proof (rule ccontr)
    assume "\<not> \<lfloor>log 2 \<bar>x\<bar>\<rfloor> < - 126"
    then have "- 126 \<le> \<lfloor>log 2 \<bar>x\<bar>\<rfloor>" by simp
    then have "of_int (- 126) \<le> log 2 \<bar>x\<bar>" by (simp add: le_floor_iff)
    then have "2 powr (of_int (- 126)) \<le> \<bar>x\<bar>" using pos
      by (subst (asm) le_log_iff) simp_all
    then have "2 powi (- 126) \<le> \<bar>x\<bar>" by (subst (asm) powr_real_of_int') simp_all
    with assms show False by simp
  qed
  with False show ?thesis by (simp add: binade_def)
qed

lemma round32_binade:
  assumes "2 powi e \<le> \<bar>x\<bar>" "\<bar>x\<bar> < 2 powi (e + 1)" "- 126 \<le> e"
  shows "round32 x = of_int (round_even (x / 2 powi (e - 23))) * 2 powi (e - 23)"
  by (simp add: round32_def binade_eq [OF assms])

lemma round32_subnormal:
  assumes "\<bar>x\<bar> < 2 powi (- 126)"
  shows "round32 x = of_int (round_even (x / 2 powi (- 149))) * 2 powi (- 149)"
  by (simp add: round32_def binade_subnormal [OF assms])

lemma round_even_of_int [simp]: "round_even (of_int k) = k"
  by (simp add: round_even_def)

lemma round_even_0 [simp]: "round_even 0 = 0"
  using round_even_of_int [of 0] by simp

lemma round_even_1 [simp]: "round_even 1 = 1"
  using round_even_of_int [of 1] by simp

lemma round_even_numeral [simp]: "round_even (numeral n) = numeral n"
  using round_even_of_int [of "numeral n"] by simp

lemma round_even_neg_numeral [simp]: "round_even (- numeral n) = - numeral n"
  using round_even_of_int [of "- numeral n"] by simp

lemma round32_0 [simp]: "round32 0 = 0"
  by (simp add: round32_def)

lemma rnd_0 [simp]: "rnd 0 = Fin 0"
  by (simp add: rnd_def)

lemma round32_of_int:
  assumes "\<bar>k\<bar> < 2 ^ 24"
  shows "round32 (of_int k) = of_int k"
proof (cases "k = 0")
  case True
  then show ?thesis by simp
next
  case False
  define e where "e = \<lfloor>log 2 \<bar>real_of_int k\<bar>\<rfloor>"
  have k1: "1 \<le> \<bar>real_of_int k\<bar>" using False by (simp flip: of_int_abs)
  then have "0 \<le> log 2 \<bar>real_of_int k\<bar>" by simp
  then have e0: "0 \<le> e" by (simp add: e_def)
  have l: "log 2 ((2::real) ^ 24) = real 24" by (rule log_pow_cancel) simp_all
  have "\<bar>real_of_int k\<bar> < 2 ^ 24" using assms by (simp flip: of_int_abs)
  then have "log 2 \<bar>real_of_int k\<bar> < log 2 ((2::real) ^ 24)"
    using k1 by (subst log_less_cancel_iff) simp_all
  then have "log 2 \<bar>real_of_int k\<bar> < 24" unfolding l by simp
  then have e23: "e \<le> 23" unfolding e_def by (simp add: floor_less_iff)
  have "binade (of_int k) = max e (- 126)"
    using False by (simp add: binade_def e_def)
  also have "\<dots> = e" using e0 by simp
  finally have b: "binade (of_int k) = e" .
  define m where "m = nat (23 - e)"
  have pw: "(2::real) powi (e - 23) = 1 / 2 ^ m"
    using e23 by (simp add: m_def power_int_def power_one_over)
  have "real_of_int k / 2 powi (e - 23) = of_int (k * 2 ^ m)" by (simp add: pw)
  then have "round_even (real_of_int k / 2 powi (e - 23)) = k * 2 ^ m"
    by (simp only: round_even_of_int)
  then show ?thesis by (simp add: round32_def b pw)
qed

lemma float_of_nat_exact: "n \<le> 2 ^ 24 \<Longrightarrow> float_of_nat n = real n"
proof (cases "n = 2 ^ 24")
  case True
  have "round32 16777216 = 16777216"
    by (subst round32_binade [where e = 24]) simp_all
  with True show ?thesis by (simp add: float_of_nat_def)
next
  case False
  assume "n \<le> 2 ^ 24"
  with False have "\<bar>int n\<bar> < 2 ^ 24" by simp
  from round32_of_int [OF this] show ?thesis by (simp add: float_of_nat_def)
qed

lemma f32_lt_irrefl: "\<not> f32_lt a a"
  by (cases a) simp_all

lemma f32_lt_trans: "f32_lt a b \<Longrightarrow> f32_lt b c \<Longrightarrow> f32_lt a c"
  by (cases a; cases b; cases c) simp_all

lemma f32_gt_irrefl: "\<not> f32_gt a a"
  by (simp add: f32_gt_def f32_lt_irrefl)

lemma f32_gt_trans: "f32_gt a b \<Longrightarrow> f32_gt b c \<Longrightarrow> f32_gt a c"
  unfolding f32_gt_def by (rule f32_lt_trans)

text \<open>The roundings and the square roots that the concrete inputs below need.\<close>

lemma rnd_value_1: "rnd 4 = Fin 4"
  by (simp add: rnd_def round32_binade [where e = "2"] round_even_def)

lemma rnd_value_2: "rnd 2 = Fin 2"
  by (simp add: rnd_def round32_binade [where e = "1"] round_even_def)

lemma rnd_value_3: "rnd 16 = Fin 16"
  by (simp add: rnd_def round32_binade [where e = "4"] round_even_def)

lemma rnd_value_4: "rnd (1 / 4) = Fin (1 / 4)"
  by (simp add: rnd_def round32_binade [where e = "- 2"] round_even_def)

lemma rnd_value_5: "rnd 1 = Fin 1"
  by (simp add: rnd_def round32_binade [where e = "0"] round_even_def)

lemma rnd_value_6: "rnd (1 / 2) = Fin (1 / 2)"
  by (simp add: rnd_def round32_binade [where e = "- 1"] round_even_def)

lemma rnd_value_7: "rnd (- 1) = Fin (- 1)"
  by (simp add: rnd_def round32_binade [where e = "0"] round_even_def)

lemma rnd_value_8: "rnd (858993458761 / 17179869184) = Fin 50"
  by (simp add: rnd_def round32_binade [where e = "5"] round_even_def)

lemma rnd_value_9: "rnd 100 = Fin 100"
  by (simp add: rnd_def round32_binade [where e = "6"] round_even_def)

lemma rnd_value_10: "rnd 10 = Fin 10"
  by (simp add: rnd_def round32_binade [where e = "3"] round_even_def)

lemma rnd_value_11: "rnd (1 / 10) = Fin (13421773 / 134217728)"
  by (simp add: rnd_def round32_binade [where e = "- 4"] round_even_def)

lemma rnd_value_12: "rnd (12439554230087 / 17592186044416) = Fin (11863283 / 16777216)"
  by (simp add: rnd_def round32_binade [where e = "- 1"] round_even_def)

lemma rnd_value_13: "rnd (11863283 / 16777216) = Fin (11863283 / 16777216)"
  by (simp add: rnd_def round32_binade [where e = "- 1"] round_even_def)

lemma rnd_value_14: "rnd (- (11863283 / 16777216)) = Fin (- (11863283 / 16777216))"
  by (simp add: rnd_def round32_binade [where e = "- 1"] round_even_def)

lemma rnd_value_15: "rnd 1393796574908163946345982392040522594123776 = PInf"
  by (simp add: rnd_def round32_binade [where e = "140"] round_even_def)

lemma rnd_value_16: "rnd 9 = Fin 9"
  by (simp add: rnd_def round32_binade [where e = "3"] round_even_def)

lemma rnd_value_17: "rnd 3 = Fin 3"
  by (simp add: rnd_def round32_binade [where e = "1"] round_even_def)

lemma rnd_value_18: "rnd (1 / 3) = Fin (11184811 / 33554432)"
  by (simp add: rnd_def round32_binade [where e = "- 2"] round_even_def)

lemma rnd_value_19: "rnd (33554433 / 33554432) = Fin 1"
  by (simp add: rnd_def round32_binade [where e = "0"] round_even_def)

lemma rnd_value_20: "rnd (5 / 4) = Fin (5 / 4)"
  by (simp add: rnd_def round32_binade [where e = "0"] round_even_def)

lemma rnd_value_21: "rnd (3 / 4) = Fin (3 / 4)"
  by (simp add: rnd_def round32_binade [where e = "- 1"] round_even_def)

lemma rnd_value_22: "rnd (- (1 / 4)) = Fin (- (1 / 4))"
  by (simp add: rnd_def round32_binade [where e = "- 2"] round_even_def)

lemma rnd_value_23: "rnd (1 / 16) = Fin (1 / 16)"
  by (simp add: rnd_def round32_binade [where e = "- 4"] round_even_def)

lemma rnd_value_24: "rnd (- (3 / 4)) = Fin (- (3 / 4))"
  by (simp add: rnd_def round32_binade [where e = "- 1"] round_even_def)

lemma rnd_value_25: "rnd (3 / 2) = Fin (3 / 2)"
  by (simp add: rnd_def round32_binade [where e = "0"] round_even_def)

lemma rnd_value_26: "rnd (- (1 / 2)) = Fin (- (1 / 2))"
  by (simp add: rnd_def round32_binade [where e = "- 1"] round_even_def)

lemma rnd_value_27: "rnd (25165823 / 16777216) = Fin (3 / 2)"
  by (simp add: rnd_def round32_binade [where e = "0"] round_even_def)

lemma rnd_value_28: "rnd (9 / 16) = Fin (9 / 16)"
  by (simp add: rnd_def round32_binade [where e = "- 1"] round_even_def)

lemma rnd_value_29: "rnd (4 / 3) = Fin (11184811 / 8388608)"
  by (simp add: rnd_def round32_binade [where e = "0"] round_even_def)

lemma rnd_value_30: "rnd (7 / 2) = Fin (7 / 2)"
  by (simp add: rnd_def round32_binade [where e = "1"] round_even_def)

lemma rnd_value_31: "rnd (33554431 / 33554432) = Fin 1"
  by (simp add: rnd_def round32_binade [where e = "- 1"] round_even_def)

lemma sqrt_value_1: "sqrt 4 = 2"
  by (rule real_sqrt_unique) (simp_all add: power2_eq_square)

lemma sqrt_value_2: "sqrt 16 = 4"
  by (rule real_sqrt_unique) (simp_all add: power2_eq_square)

lemma sqrt_value_3: "sqrt 100 = 10"
  by (rule real_sqrt_unique) (simp_all add: power2_eq_square)

lemma sqrt_value_4: "sqrt 9 = 3"
  by (rule real_sqrt_unique) (simp_all add: power2_eq_square)

lemma sqrt_value_5: "sqrt (1 / 16) = 1 / 4"
  by (rule real_sqrt_unique) (simp_all add: power2_eq_square)

lemma sqrt_value_6: "sqrt (1 / 4) = 1 / 2"
  by (rule real_sqrt_unique) (simp_all add: power2_eq_square)

lemma sqrt_value_7: "sqrt (9 / 16) = 3 / 4"
  by (rule real_sqrt_unique) (simp_all add: power2_eq_square)

lemmas rnd_values =
  rnd_value_1 rnd_value_2 rnd_value_3 rnd_value_4 rnd_value_5 rnd_value_6 rnd_value_7
  rnd_value_8 rnd_value_9 rnd_value_10 rnd_value_11 rnd_value_12 rnd_value_13
  rnd_value_14 rnd_value_15 rnd_value_16 rnd_value_17 rnd_value_18 rnd_value_19
  rnd_value_20 rnd_value_21 rnd_value_22 rnd_value_23 rnd_value_24 rnd_value_25
  rnd_value_26 rnd_value_27 rnd_value_28 rnd_value_29 rnd_value_30 rnd_value_31

lemmas sqrt_values =
  sqrt_value_1 sqrt_value_2 sqrt_value_3 sqrt_value_4 sqrt_value_5 sqrt_value_6
  sqrt_value_7

subsection \<open>Vector arithmetic\<close>

lemma vadd_zero_velocity: "vadd p (vscale (Vec2 0 0) e) = p"
  by (cases p) (simp add: vadd_def vscale_def)

lemma vsub_self: "vsub p p = Vec2 0 0"
  by (simp add: vsub_def)

lemma vdiv_scalar_zero: "vdiv_scalar (Vec2 0 0) s = Vec2 0 0"
  by (simp add: vdiv_scalar_def)

lemma roundf_0: "roundf 0 = 0"
  by (simp add: roundf_def)

text \<open>The length of (2, 0) and the normalisation of (4, 0), computed by glm in binary32.\<close>

lemma glm_length_2_0: "glm_length (FVec2 (Fin 2) (Fin 0)) = Fin 2"
  by (simp add: glm_length_def glm_dot_def rnd_values sqrt_values)

lemma glm_normalize_4_0: "glm_normalize (FVec2 (Fin 4) (Fin 0)) = FVec2 (Fin 1) (Fin 0)"
  by (simp add: glm_normalize_def glm_inversesqrt_def glm_dot_def fvec_scale_def rnd_values
      sqrt_values)

lemma mset_rotate_eq: "mset (rotate n xs) = mset xs"
proof (induction n)
  case 0
  show ?case by simp
next
  case (Suc n)
  have "mset (rotate1 ys) = mset ys" for ys :: "'a list"
    by (cases ys) simp_all
  with Suc show ?case by simp
qed

subsection \<open>Concrete levels\<close>

lemma lone_guard_eq:
  "lone_guard =
     \<lparr>position = Vec2 1 0, guard_id = 1, Guard.radius = 1 / 2, fov = GuardVision_default,
      time_looking_in_direction = 0, look_thresh = 0,
      current_waypoint = Vec2 1 0, next_waypoint = Vec2 1 0,
      wait_thresh = 0, time_at_waypoint = 0, Guard.velocity = Vec2 0 0,
      waypoints = [Vec2 1 0]\<rparr>"
  by (simp add: lone_guard_def load_level_def getlines_def load_cell_def Let_def isdigit_def
      Level_ctor_def get_guard_index_def Guard_ctor_def quiet_runtime_def rand_thresh_def
      float_of_nat_exact)

lemma patrol_guard_eq:
  "patrol_guard =
     \<lparr>position = Vec2 0 0, guard_id = 1, Guard.radius = 1 / 2, fov = GuardVision_default,
      time_looking_in_direction = 0, look_thresh = 0,
      current_waypoint = Vec2 0 0, next_waypoint = Vec2 0 0,
      wait_thresh = 0, time_at_waypoint = 0, Guard.velocity = Vec2 0 0,
      waypoints = [Vec2 0 0, Vec2 4 0]\<rparr>"
  by (simp add: patrol_guard_def load_level_def getlines_def load_cell_def Let_def isdigit_def
      Level_ctor_def get_guard_index_def Guard_ctor_def quiet_runtime_def rand_thresh_def
      float_of_nat_exact)

lemma getlines_ragged_file: "getlines ragged_file = [''ab'', ''c'']"
  by (simp add: getlines_def ragged_file_def)

lemma getlines_widening_file: "getlines widening_file = [''a'', ''bc'']"
  by (simp add: getlines_def widening_file_def)

lemma getlines_small_map: "getlines small_map = [''.P.'', ''..#'', ''H..'']"
  by (simp add: getlines_def small_map_def)


lemma level_matrix_ragged_file:
  "level_matrix (fst (load_level rt (Some ragged_file) (Level_ctor, 0))) = [''ab'', ''c'']"
  by (simp add: load_level_def getlines_ragged_file load_cell_def Let_def isdigit_def
      Level_ctor_def)

lemma level_matrix_widening_file:
  "level_matrix (fst (load_level rt (Some widening_file) (Level_ctor, 0))) = [''a'', ''bc'']"
  by (simp add: load_level_def getlines_widening_file load_cell_def Let_def isdigit_def
      Level_ctor_def)

subsection \<open>Guard::update: leaving a waypoint\<close>

text \<open>
  Claim C1. The claim says that this update sets the velocity to the unit vector from the
  current to the next waypoint. The source divides by \<^verbatim>\<open>velocity.length()\<close>, which in glm is
  the number of components, 2. For the guard of the map \<^verbatim>\<open>1...1\<close> the second update takes
  the waypoint (4, 0) from the front of the route and leaves the velocity (2, 0), of length
  2, where the normalised direction is (1, 0).
\<close>

theorem Guard_update_velocity_not_unit:
  "\<exists>g'. Guard_updates [(1 / 4, 0, 0), (1 / 4, 0, 0)] patrol_guard = Inr g' \<and>
        current_waypoint g' = Vec2 0 0 \<and> next_waypoint g' = Vec2 4 0 \<and>
        Guard.velocity g' = Vec2 2 0 \<and> glm_length (fvec (Guard.velocity g')) = Fin 2 \<and>
        glm_normalize (fvec (vsub (next_waypoint g') (current_waypoint g'))) =
          FVec2 (Fin 1) (Fin 0)"
  by (simp add: patrol_guard_eq Guard_update_def wait_at_waypoint_def move_and_look_def Let_def
      at_current_waypoint_def at_next_waypoint_def roundf_0 vadd_def vscale_def vsub_def
      vdiv_scalar_def vec2_length_def change_look_dir_def rand_thresh_def fvec_def
      glm_length_2_0 glm_normalize_4_0)

subsection \<open>Guard::update: the route\<close>

lemma wait_at_waypoint_waypoints:
  assumes "waypoints g \<noteq> []"
  shows "\<exists>g'. wait_at_waypoint elapsed g = Inr g' \<and>
           (waypoints g' = waypoints g \<or> waypoints g' = rotate1 (waypoints g))"
  using assms by (cases "waypoints g") (auto simp: wait_at_waypoint_def Let_def)

lemma move_and_look_waypoints:
  "waypoints (move_and_look elapsed mt_out rand_out g) = waypoints g"
  by (simp add: move_and_look_def Let_def change_look_dir_def)

lemma Guard_update_waypoints:
  assumes "waypoints g \<noteq> []"
  shows "\<exists>g'. Guard_update elapsed mt_out rand_out g = Inr g' \<and>
           (waypoints g' = waypoints g \<or> waypoints g' = rotate1 (waypoints g))"
proof -
  let ?g1 = "g\<lparr>position := vadd (position g) (vscale (Guard.velocity g) elapsed)\<rparr>"
  have ne: "waypoints ?g1 \<noteq> []" using assms by simp
  show ?thesis
  proof (cases "at_current_waypoint ?g1")
    case True
    from wait_at_waypoint_waypoints [OF ne, of elapsed] obtain g2 where
      "wait_at_waypoint elapsed ?g1 = Inr g2"
      "waypoints g2 = waypoints ?g1 \<or> waypoints g2 = rotate1 (waypoints ?g1)" by blast
    with True show ?thesis
      by (auto simp: Guard_update_def Let_def move_and_look_waypoints)
  next
    case False
    then show ?thesis
      by (simp add: Guard_update_def Let_def move_and_look_waypoints)
  qed
qed

lemma Guard_updates_waypoints:
  assumes "waypoints g \<noteq> []"
  shows "\<exists>g' n. Guard_updates frames g = Inr g' \<and> waypoints g' = rotate n (waypoints g)"
  using assms
proof (induction frames arbitrary: g)
  case Nil
  have "waypoints g = rotate 0 (waypoints g)" by simp
  then show ?case by (metis Guard_updates.simps(1))
next
  case (Cons f frames)
  obtain elapsed mt_out rand_out where f: "f = (elapsed, mt_out, rand_out)"
    by (cases f) auto
  from Guard_update_waypoints [OF Cons.prems, of elapsed mt_out rand_out] obtain g1 where
    g1: "Guard_update elapsed mt_out rand_out g = Inr g1"
    and w1: "waypoints g1 = waypoints g \<or> waypoints g1 = rotate1 (waypoints g)" by blast
  then obtain m where m: "waypoints g1 = rotate m (waypoints g)"
    by (metis rotate0 id_apply rotate_Suc)
  with Cons.prems have "waypoints g1 \<noteq> []" by simp
  from Cons.IH [OF this] obtain g' n where
    r: "Guard_updates frames g1 = Inr g'" "waypoints g' = rotate n (waypoints g1)" by blast
  have "waypoints g' = rotate (n + m) (waypoints g)"
    using r(2) m by (simp add: rotate_rotate)
  moreover have "Guard_updates (f # frames) g = Inr g'"
    using f g1 r(1) by simp
  ultimately show ?case by blast
qed

text \<open>
  Claim C9. For a guard with a non-empty route, one update returns normally and leaves the
  route as it is or moves its front element to the back; any sequence of updates returns
  normally with a rotation of the initial route, which has the same length and the same
  elements with the same multiplicities, and is not empty.
\<close>

theorem Guard_update_rotates_route:
  assumes "waypoints g \<noteq> []"
  shows "(\<exists>g'. Guard_update elapsed mt_out rand_out g = Inr g' \<and>
            (waypoints g' = waypoints g \<or> waypoints g' = rotate1 (waypoints g))) \<and>
         (\<exists>g' n. Guard_updates frames g = Inr g' \<and>
            waypoints g' = rotate n (waypoints g) \<and>
            length (waypoints g') = length (waypoints g) \<and>
            mset (waypoints g') = mset (waypoints g) \<and> waypoints g' \<noteq> [])"
proof
  show "\<exists>g'. Guard_update elapsed mt_out rand_out g = Inr g' \<and>
          (waypoints g' = waypoints g \<or> waypoints g' = rotate1 (waypoints g))"
    using assms by (rule Guard_update_waypoints)
next
  from Guard_updates_waypoints [OF assms, of frames] obtain g' n where
    r: "Guard_updates frames g = Inr g'" "waypoints g' = rotate n (waypoints g)" by blast
  from r(2) assms have "length (waypoints g') = length (waypoints g)"
    "mset (waypoints g') = mset (waypoints g)" "waypoints g' \<noteq> []"
    by (simp_all add: mset_rotate_eq)
  with r show "\<exists>g' n. Guard_updates frames g = Inr g' \<and>
      waypoints g' = rotate n (waypoints g) \<and>
      length (waypoints g') = length (waypoints g) \<and>
      mset (waypoints g') = mset (waypoints g) \<and> waypoints g' \<noteq> []" by blast
qed

text \<open>The guard of the map \<^verbatim>\<open>1...1\<close>, with the route (0, 0), (4, 0), updated three times.\<close>

theorem Guard_update_rotates_route_witness:
  "waypoints patrol_guard = [Vec2 0 0, Vec2 4 0] \<and>
   (\<exists>g'. Guard_update (1 / 4) 0 0 patrol_guard = Inr g' \<and>
      (waypoints g' = waypoints patrol_guard \<or>
       waypoints g' = rotate1 (waypoints patrol_guard))) \<and>
   (\<exists>g' n. Guard_updates [(1 / 4, 0, 0), (1 / 4, 0, 0), (1 / 4, 0, 0)] patrol_guard = Inr g' \<and>
      waypoints g' = rotate n (waypoints patrol_guard) \<and>
      length (waypoints g') = length (waypoints patrol_guard) \<and>
      mset (waypoints g') = mset (waypoints patrol_guard) \<and> waypoints g' \<noteq> [])"
proof -
  have eq: "waypoints patrol_guard = [Vec2 0 0, Vec2 4 0]" by (simp add: patrol_guard_eq)
  then have ne: "waypoints patrol_guard \<noteq> []" by simp
  from eq Guard_update_rotates_route [OF ne, of "1 / 4" 0 0
      "[(1 / 4, 0, 0), (1 / 4, 0, 0), (1 / 4, 0, 0)]"]
  show ?thesis by blast
qed

subsection \<open>Guard::update: a guard with a single cell\<close>

lemma wait_at_waypoint_stationary:
  assumes "stationary g"
  shows "\<exists>g'. wait_at_waypoint elapsed g = Inr g' \<and> stationary g' \<and> position g' = position g"
proof (cases "waypoints g")
  case Nil
  with assms show ?thesis by (simp add: stationary_def)
next
  case (Cons w ws)
  with assms have w: "w = position g" and ws: "set ws \<subseteq> {position g}"
    by (auto simp: stationary_def)
  with assms Cons show ?thesis
    by (auto simp: wait_at_waypoint_def Let_def stationary_def vsub_self vdiv_scalar_zero)
qed

lemma move_and_look_stationary:
  assumes "stationary g"
  shows "stationary (move_and_look elapsed mt_out rand_out g) \<and>
         position (move_and_look elapsed mt_out rand_out g) = position g"
  using assms
  by (simp add: move_and_look_def Let_def stationary_def change_look_dir_def
      at_current_waypoint_def at_next_waypoint_def vsub_self)

lemma Guard_update_stationary:
  assumes "stationary g"
  shows "\<exists>g'. Guard_update elapsed mt_out rand_out g = Inr g' \<and> stationary g' \<and>
           position g' = position g"
proof -
  let ?g1 = "g\<lparr>position := vadd (position g) (vscale (Guard.velocity g) elapsed)\<rparr>"
  from assms have "?g1 = g" by (simp add: stationary_def vadd_zero_velocity)
  then have g1: "stationary ?g1" "position ?g1 = position g" using assms by simp_all
  show ?thesis
  proof (cases "at_current_waypoint ?g1")
    case True
    from wait_at_waypoint_stationary [OF g1(1), of elapsed] obtain g2 where
      g2: "wait_at_waypoint elapsed ?g1 = Inr g2" "stationary g2" "position g2 = position ?g1"
      by blast
    from move_and_look_stationary [OF g2(2), of elapsed mt_out rand_out] True g2 g1(2)
    show ?thesis by (simp add: Guard_update_def Let_def)
  next
    case False
    from move_and_look_stationary [OF g1(1), of elapsed mt_out rand_out] False g1(2)
    show ?thesis by (simp add: Guard_update_def Let_def)
  qed
qed

text \<open>
  Claim C10. A guard at rest whose route is not empty and holds only its own position, which
  is also its current and next waypoint, stays where it is: every sequence of updates,
  whatever the elapsed times and the random results, returns normally with the position
  unchanged and the velocity zero.
\<close>

theorem stationary_guard_never_moves:
  assumes "stationary g"
  shows "\<exists>g'. Guard_updates frames g = Inr g' \<and> position g' = position g \<and>
           Guard.velocity g' = Vec2 0 0"
  using assms
proof (induction frames arbitrary: g)
  case Nil
  then show ?case by (simp add: stationary_def)
next
  case (Cons f frames)
  obtain elapsed mt_out rand_out where f: "f = (elapsed, mt_out, rand_out)"
    by (cases f) auto
  from Guard_update_stationary [OF Cons.prems, of elapsed mt_out rand_out] obtain g1 where
    g1: "Guard_update elapsed mt_out rand_out g = Inr g1" "stationary g1"
        "position g1 = position g" by blast
  from Cons.IH [OF g1(2)] g1 f show ?case by simp
qed

text \<open>The guard of the map \<^verbatim>\<open>.1\<close>, whose digit occurs once, is such a guard.\<close>

theorem stationary_guard_never_moves_witness:
  "stationary lone_guard \<and>
   (\<exists>g'. Guard_updates [(1 / 4, 3, 5), (2, 1, 1), (1 / 2, 6, 0)] lone_guard = Inr g' \<and>
      position g' = Vec2 1 0 \<and> Guard.velocity g' = Vec2 0 0)"
proof -
  have st: "stationary lone_guard" by (simp add: stationary_def lone_guard_eq)
  show ?thesis
    using st stationary_guard_never_moves [OF st, of "[(1 / 4, 3, 5), (2, 1, 1), (1 / 2, 6, 0)]"]
    by (simp add: lone_guard_eq)
qed

subsection \<open>Level::at\<close>

text \<open>On a matrix whose rows all have the length of row 0, the accessor never fails: it
  returns the cell inside the matrix and the sentinel outside.\<close>

theorem Level_at_total_on_rectangular:
  assumes "\<forall>r \<in> set (level_matrix lvl). length r = length (level_matrix lvl ! 0)"
  shows "Level_at lvl row col =
           Inr (if 0 \<le> row \<and> 0 \<le> col \<and> nat row < length (level_matrix lvl) \<and>
                   nat col < length (level_matrix lvl ! nat row)
                then level_matrix lvl ! nat row ! nat col else CHR 0x00)"
  using assms by (auto simp: Level_at_def)

theorem Level_at_total_on_rectangular_witness:
  "Level_at (fst (load_level quiet_runtime (Some small_map) (Level_ctor, 0))) 1 2 =
     Inr (CHR ''#'') \<and>
   Level_at (fst (load_level quiet_runtime (Some small_map) (Level_ctor, 0))) 3 0 =
     Inr (CHR 0x00) \<and>
   Level_at (fst (load_level quiet_runtime (Some small_map) (Level_ctor, 0))) 0 (- 1) =
     Inr (CHR 0x00)"
proof -
  let ?lvl = "fst (load_level quiet_runtime (Some small_map) (Level_ctor, 0))"
  have m: "level_matrix ?lvl = [''.P.'', ''..#'', ''H..'']"
    by (simp add: load_level_def getlines_small_map load_cell_def Let_def isdigit_def
        Level_ctor_def)
  have r: "\<forall>r \<in> set (level_matrix ?lvl). length r = length (level_matrix ?lvl ! 0)"
    by (simp add: m)
  show ?thesis
    using Level_at_total_on_rectangular [OF r, of 1 2]
      Level_at_total_on_rectangular [OF r, of 3 0]
      Level_at_total_on_rectangular [OF r, of 0 "- 1"]
    by (simp add: m)
qed

text \<open>
  Claim C3. The claim says that the accessor is total on ragged matrices too, returning the
  cell when it exists and the sentinel otherwise. The source compares the column with the
  size of row 0, whatever the row. After loading the lines \<^verbatim>\<open>ab\<close> and \<^verbatim>\<open>c\<close>, \<^verbatim>\<open>at(1, 1)\<close> reads
  past the end of row 1; after loading the lines \<^verbatim>\<open>a\<close> and \<^verbatim>\<open>bc\<close>, \<^verbatim>\<open>at(1, 1)\<close> returns the
  sentinel although the cell holds \<^verbatim>\<open>c\<close>.
\<close>

theorem Level_at_ragged_out_of_bounds:
  "Level_at (fst (load_level quiet_runtime (Some ragged_file) (Level_ctor, 0))) 1 1 =
     Inl Index_out_of_bounds \<and>
   Level_at (fst (load_level quiet_runtime (Some widening_file) (Level_ctor, 0))) 1 1 =
     Inr (CHR 0x00) \<and>
   level_matrix (fst (load_level quiet_runtime (Some widening_file) (Level_ctor, 0))) ! 1 ! 1 =
     CHR ''c''"
  by (simp add: Level_at_def level_matrix_ragged_file level_matrix_widening_file)

subsection \<open>Level::fell_in_hole\<close>








subsection \<open>Game::game_over\<close>







subsection \<open>Level::load_level\<close>

lemma line_cells_Nil [simp]: "line_cells ch r i [] = []"
  by (simp add: line_cells_def)












subsection \<open>vector_direction\<close>

text \<open>One iteration of the loop keeps the invariant; after the four iterations the best
  match is the sentinel when no value is positive and the first best index otherwise.\<close>

lemma loop_inv_step:
  assumes inv: "loop_inv d i mx b"
  shows "loop_inv d (Suc i) (if f32_gt (d i) mx then d i else mx)
           (if f32_gt (d i) mx then of_nat i else b)"
proof (cases "f32_gt (d i) mx")
  case True
  have below: "\<not> f32_gt (d j) mx" if "j < i" for j
    using inv that unfolding loop_inv_def by blast
  from inv have "mx = Fin 0 \<or> f32_gt mx (Fin 0)"
    unfolding loop_inv_def by blast
  then have pos: "f32_gt (d i) (Fin 0)"
  proof
    assume "mx = Fin 0"
    with True show ?thesis by simp
  next
    assume "f32_gt mx (Fin 0)"
    with True show ?thesis by (rule f32_gt_trans)
  qed
  have gr: "\<not> f32_gt (d j) (d i)" if "j < Suc i" for j
  proof (cases "j = i")
    case True
    then show ?thesis by (simp add: f32_gt_irrefl)
  next
    case False
    with that have "j < i" by simp
    show ?thesis
    proof
      assume "f32_gt (d j) (d i)"
      then have "f32_gt (d j) mx" using True by (rule f32_gt_trans)
      with below [OF \<open>j < i\<close>] show False by simp
    qed
  qed
  have first: "d j \<noteq> d i" if "j < i" for j
  proof
    assume "d j = d i"
    with below [OF that] True show False by simp
  qed
  have "i < Suc i \<and> (of_nat i :: 32 word) = of_nat i \<and> d i = d i \<and> f32_gt (d i) (Fin 0) \<and>
      (\<forall>j<Suc i. \<not> f32_gt (d j) (d i)) \<and> (\<forall>j<i. d j \<noteq> d i)"
    using pos gr first by simp
  then have "\<exists>k<Suc i. (of_nat i :: 32 word) = of_nat k \<and> d i = d k \<and> f32_gt (d k) (Fin 0) \<and>
      (\<forall>j<Suc i. \<not> f32_gt (d j) (d k)) \<and> (\<forall>j<k. d j \<noteq> d k)"
    by (rule exI [of _ i])
  then have "loop_inv d (Suc i) (d i) (of_nat i)"
    unfolding loop_inv_def by (rule disjI2)
  with True show ?thesis by simp
next
  case False
  from inv have "loop_inv d (Suc i) mx b"
    unfolding loop_inv_def
  proof
    assume a: "b = - 1 \<and> mx = Fin 0 \<and> (\<forall>j<i. \<not> f32_gt (d j) (Fin 0))"
    with False have "\<forall>j<Suc i. \<not> f32_gt (d j) (Fin 0)"
      by (simp add: less_Suc_eq)
    with a show "(b = - 1 \<and> mx = Fin 0 \<and> (\<forall>j<Suc i. \<not> f32_gt (d j) (Fin 0))) \<or>
      (\<exists>k<Suc i. b = of_nat k \<and> mx = d k \<and> f32_gt (d k) (Fin 0) \<and>
        (\<forall>j<Suc i. \<not> f32_gt (d j) (d k)) \<and> (\<forall>j<k. d j \<noteq> d k))"
      by simp
  next
    assume "\<exists>k<i. b = of_nat k \<and> mx = d k \<and> f32_gt (d k) (Fin 0) \<and>
        (\<forall>j<i. \<not> f32_gt (d j) (d k)) \<and> (\<forall>j<k. d j \<noteq> d k)"
    then obtain k where k: "k < i" "b = of_nat k" "mx = d k" "f32_gt (d k) (Fin 0)"
      "\<forall>j<i. \<not> f32_gt (d j) (d k)" "\<forall>j<k. d j \<noteq> d k"
      by blast
    from k(3,5) False have "\<forall>j<Suc i. \<not> f32_gt (d j) (d k)"
      by (simp add: less_Suc_eq)
    with k have "k < Suc i \<and> b = of_nat k \<and> mx = d k \<and> f32_gt (d k) (Fin 0) \<and>
        (\<forall>j<Suc i. \<not> f32_gt (d j) (d k)) \<and> (\<forall>j<k. d j \<noteq> d k)"
      by simp
    then have "\<exists>k<Suc i. b = of_nat k \<and> mx = d k \<and> f32_gt (d k) (Fin 0) \<and>
        (\<forall>j<Suc i. \<not> f32_gt (d j) (d k)) \<and> (\<forall>j<k. d j \<noteq> d k)"
      by (rule exI)
    then show "(b = - 1 \<and> mx = Fin 0 \<and> (\<forall>j<Suc i. \<not> f32_gt (d j) (Fin 0))) \<or>
      (\<exists>k<Suc i. b = of_nat k \<and> mx = d k \<and> f32_gt (d k) (Fin 0) \<and>
        (\<forall>j<Suc i. \<not> f32_gt (d j) (d k)) \<and> (\<forall>j<k. d j \<noteq> d k))"
      by (rule disjI2)
  qed
  with False show ?thesis by simp
qed

lemma vector_direction_loop_inv:
  assumes "loop_inv (dot_product t) i mx b" "i \<le> 4"
  shows "\<exists>m. loop_inv (dot_product t) 4 m (vector_direction_loop t i mx b)"
  using assms
proof (induction t i mx b rule: vector_direction_loop.induct)
  case (1 target i mx best_match)
  show ?case
  proof (cases "i < 4")
    case False
    with "1.prems" have "i = 4" by simp
    with "1.prems" show ?thesis
      by (subst vector_direction_loop.simps) auto
  next
    case True
    note step = loop_inv_step [OF "1.prems"(1)]
    show ?thesis
    proof (cases "f32_gt (dot_product target i) mx")
      case gt: True
      with step have "loop_inv (dot_product target) (i + 1) (dot_product target i) (of_nat i)"
        by simp
      from "1.IH"(1) [OF True gt this] True gt show ?thesis
        by (subst vector_direction_loop.simps) simp
    next
      case ngt: False
      with step have "loop_inv (dot_product target) (i + 1) mx best_match"
        by simp
      from "1.IH"(2) [OF True ngt this] True ngt show ?thesis
        by (subst vector_direction_loop.simps) simp
    qed
  qed
qed

lemma of_nat_less_4_neq_minus_1: "k < 4 \<Longrightarrow> (of_nat k :: 32 word) \<noteq> - 1"
proof -
  assume "k < 4"
  then have "k = 0 \<or> k = Suc 0 \<or> k = Suc (Suc 0) \<or> k = Suc (Suc (Suc 0))"
    by arith
  then show ?thesis
    by (elim disjE) simp_all
qed

lemma vector_direction_loop_result:
  "(\<not> none_positive (dot_product t) \<longrightarrow>
      (\<exists>i. first_best (dot_product t) i \<and>
           vector_direction_loop t 0 (Fin 0) (- 1) = of_nat i)) \<and>
   (none_positive (dot_product t) \<longrightarrow> vector_direction_loop t 0 (Fin 0) (- 1) = - 1)"
proof -
  define r where "r = vector_direction_loop t 0 (Fin 0) (- 1)"
  define d where "d = dot_product t"
  have "loop_inv (dot_product t) 0 (Fin 0) (- 1)" by (simp add: loop_inv_def)
  from vector_direction_loop_inv [OF this] obtain m where "loop_inv d 4 m r"
    unfolding r_def d_def by auto
  then consider (none) "r = - 1" "none_positive d"
    | (some) k where "k < 4" "r = of_nat k" "first_best d k"
    unfolding loop_inv_def first_best_def none_positive_def by blast
  then have "(\<not> none_positive d \<longrightarrow> (\<exists>i. first_best d i \<and> r = of_nat i)) \<and>
    (none_positive d \<longrightarrow> r = - 1)"
  proof cases
    case none
    then show ?thesis by simp
  next
    case some
    from some(3) have "\<not> none_positive d"
      unfolding first_best_def none_positive_def by blast
    with some show ?thesis by blast
  qed
  then show ?thesis unfolding r_def d_def .
qed

lemma Direction_of_cardinals: "i < 4 \<Longrightarrow> Direction_of (of_nat i) = cardinals ! i"
proof -
  assume "i < 4"
  then consider "i = 0" | "i = 1" | "i = 2" | "i = 3" by arith
  then show ?thesis
  proof cases
    case 1
    then show ?thesis by (simp add: Direction_of_def cardinals_def)
  next
    case 2
    then show ?thesis by (simp add: Direction_of_def cardinals_def)
  next
    case 3
    have "cardinals ! 2 = Direction.DOWN" by (simp add: cardinals_def numeral_2_eq_2)
    with 3 show ?thesis by (simp add: Direction_of_def)
  next
    case 4
    have "cardinals ! 3 = Direction.LEFT" by (simp add: cardinals_def numeral_3_eq_3)
    with 4 show ?thesis by (simp add: Direction_of_def)
  qed
qed

lemma vector_direction_result:
  "(\<not> none_positive (dot_product t) \<longrightarrow>
      (\<exists>i. first_best (dot_product t) i \<and> vector_direction t = cardinals ! i)) \<and>
   (none_positive (dot_product t) \<longrightarrow> vector_direction t = Direction_value (- 1))"
proof (intro conjI impI)
  assume "\<not> none_positive (dot_product t)"
  with vector_direction_loop_result [of t] obtain i where
    i: "first_best (dot_product t) i" "vector_direction_loop t 0 (Fin 0) (- 1) = of_nat i"
    by blast
  from i(1) have "i < 4" by (simp add: first_best_def)
  with i show "\<exists>i. first_best (dot_product t) i \<and> vector_direction t = cardinals ! i"
    by (auto simp: vector_direction_def Direction_of_cardinals)
next
  assume "none_positive (dot_product t)"
  with vector_direction_loop_result [of t]
  show "vector_direction t = Direction_value (- 1)"
    by (simp add: vector_direction_def Direction_of_def)
qed

lemma compass_nth:
  "compass ! 0 = FVec2 (Fin 0) (Fin 1)" "compass ! Suc 0 = FVec2 (Fin 1) (Fin 0)"
  "compass ! 1 = FVec2 (Fin 1) (Fin 0)" "compass ! 2 = FVec2 (Fin 0) (Fin (- 1))"
  "compass ! 3 = FVec2 (Fin (- 1)) (Fin 0)"
  by (simp_all add: compass_def numeral_2_eq_2 numeral_3_eq_3)

lemma all_less_4: "(\<forall>j<4::nat. P j) \<longleftrightarrow> P 0 \<and> P 1 \<and> P 2 \<and> P 3"
proof -
  have "j < 4 \<longleftrightarrow> j = 0 \<or> j = 1 \<or> j = 2 \<or> j = 3" for j :: nat by arith
  then show ?thesis by auto
qed


lemma all_less_3: "(\<forall>j<3::nat. P j) \<longleftrightarrow> P 0 \<and> P 1 \<and> P 2"
proof -
  have "j < 3 \<longleftrightarrow> j = 0 \<or> j = 1 \<or> j = 2" for j :: nat by arith
  then show ?thesis by auto
qed

lemma all_less_2: "(\<forall>j<2::nat. P j) \<longleftrightarrow> P 0 \<and> P 1"
proof -
  have "j < 2 \<longleftrightarrow> j = 0 \<or> j = 1" for j :: nat by arith
  then show ?thesis by auto
qed

lemma all_less_1: "(\<forall>j<1::nat. P j) \<longleftrightarrow> P 0"
  by simp

lemma first_best_UP:
  "first_best d 0 \<longleftrightarrow>
     f32_gt (d 0) (Fin 0) \<and>
     \<not> f32_gt (d 1) (d 0) \<and> \<not> f32_gt (d 2) (d 0) \<and> \<not> f32_gt (d 3) (d 0)"
  unfolding first_best_def all_less_4 by (simp add: f32_gt_irrefl)

lemma first_best_RIGHT:
  "first_best d 1 \<longleftrightarrow>
     f32_gt (d 1) (Fin 0) \<and> d 0 \<noteq> d 1 \<and>
     \<not> f32_gt (d 0) (d 1) \<and> \<not> f32_gt (d 2) (d 1) \<and> \<not> f32_gt (d 3) (d 1)"
  unfolding first_best_def all_less_4 all_less_1 using f32_gt_irrefl [of "d 1"] by auto

lemma first_best_DOWN:
  "first_best d 2 \<longleftrightarrow>
     f32_gt (d 2) (Fin 0) \<and> d 0 \<noteq> d 2 \<and> d 1 \<noteq> d 2 \<and>
     \<not> f32_gt (d 0) (d 2) \<and> \<not> f32_gt (d 1) (d 2) \<and> \<not> f32_gt (d 3) (d 2)"
  unfolding first_best_def all_less_4 all_less_2 using f32_gt_irrefl [of "d 2"] by auto

lemma first_best_LEFT:
  "first_best d 3 \<longleftrightarrow>
     f32_gt (d 3) (Fin 0) \<and> d 0 \<noteq> d 3 \<and> d 1 \<noteq> d 3 \<and> d 2 \<noteq> d 3 \<and>
     \<not> f32_gt (d 0) (d 3) \<and> \<not> f32_gt (d 1) (d 3) \<and> \<not> f32_gt (d 2) (d 3)"
  unfolding first_best_def all_less_4 all_less_3 using f32_gt_irrefl [of "d 3"] by auto

lemmas first_best_cases = first_best_UP first_best_RIGHT first_best_DOWN first_best_LEFT

text \<open>Two values that are not NaN and of which neither exceeds the other are equal, so at
  most one index is the first best.\<close>

lemma f32_gt_not_NaN: "f32_gt a b \<Longrightarrow> a \<noteq> NaN \<and> b \<noteq> NaN"
  by (cases a; cases b) (simp_all add: f32_gt_def)

lemma f32_gt_total: "a \<noteq> NaN \<Longrightarrow> b \<noteq> NaN \<Longrightarrow> \<not> f32_gt a b \<Longrightarrow> \<not> f32_gt b a \<Longrightarrow> a = b"
  by (cases a; cases b) (simp_all add: f32_gt_def)

lemma first_best_unique:
  assumes i: "first_best d i" and k: "first_best d k"
  shows "i = k"
proof -
  from i k have lt: "i < 4" "k < 4" by (simp_all add: first_best_def)
  from i k have "d i \<noteq> NaN" "d k \<noteq> NaN"
    unfolding first_best_def by (blast dest: f32_gt_not_NaN)+
  moreover from i lt(2) have "\<not> f32_gt (d k) (d i)" unfolding first_best_def by blast
  moreover from k lt(1) have "\<not> f32_gt (d i) (d k)" unfolding first_best_def by blast
  ultimately have eq: "d i = d k" by (blast intro: f32_gt_total)
  have "\<not> i < k"
  proof
    assume "i < k"
    with k have "d i \<noteq> d k" unfolding first_best_def by blast
    with eq show False by simp
  qed
  moreover have "\<not> k < i"
  proof
    assume "k < i"
    with i have "d k \<noteq> d i" unfolding first_best_def by blast
    with eq show False by simp
  qed
  ultimately show ?thesis by simp
qed

text \<open>The normalisation of the zero vector multiplies 0 by the infinity \<^verbatim>\<open>1 / sqrt(0)\<close>: its
  components and the four dot products are NaN.\<close>

lemma dot_product_zero: "dot_product (FVec2 (Fin 0) (Fin 0)) j = NaN"
  by (simp add: dot_product_def glm_dot_def glm_normalize_def glm_inversesqrt_def
      fvec_scale_def signed_inf_def)

text \<open>The dot products of the vectors (0, -2), (x, x) with x = 926819 / 131072, and
  (2 ^ 70, 0). The square of x rounds to 50 and the squared length of (x, x) is 100. The
  squared length of the third vector overflows: its inverse square root is 0.\<close>

lemmas dot_product_eval =
  dot_product_def compass_nth glm_dot_def glm_normalize_def glm_inversesqrt_def fvec_scale_def
  signed_inf_def rnd_values sqrt_values






subsection \<open>Level::check_wall_collision\<close>

text \<open>The direction of a vector whose dot products are known.\<close>

lemma vector_direction_at:
  assumes "first_best (dot_product t) i"
  shows "vector_direction t = cardinals ! i"
proof -
  from assms have "\<not> none_positive (dot_product t)"
    unfolding first_best_def none_positive_def by blast
  with vector_direction_result [of t] obtain k where
    k: "first_best (dot_product t) k" "vector_direction t = cardinals ! k" by blast
  from first_best_unique [OF assms k(1)] k(2) show ?thesis by simp
qed

lemma vector_direction_none:
  "none_positive (dot_product t) \<Longrightarrow> vector_direction t = Direction_value (- 1)"
  using vector_direction_result [of t] by blast

text \<open>The function in terms of the circle and the box.\<close>

lemma glm_clamp_components:
  "glm_clamp v (fvec_neg h) h =
     FVec2 (clamp_component (fvec_x v) (fvec_x h)) (clamp_component (fvec_y v) (fvec_y h))"
  by (simp add: glm_clamp_def glm_min_def glm_max_def clamp_component_def fvec_neg_def Let_def)

lemma check_wall_collision_eq:
  "check_wall_collision lvl wall =
     (if f32_lt (glm_length (center_to_closest (player lvl) wall)) (Fin (Player.radius (player lvl)))
      then (True, vector_direction (center_to_closest (player lvl) wall),
            center_to_closest (player lvl) wall)
      else (False, Direction.UP, FVec2 (Fin 0) (Fin 0)))"
proof -
  have c: "fvec_add_scalar (fvec (position (player lvl))) (Fin (Player.radius (player lvl))) =
      circle_center (player lvl)"
    by (simp add: fvec_add_scalar_def fvec_def circle_center_def)
  have h: "FVec2 (f32_div (Fin (vec_x (wall_size wall))) (Fin 2))
      (f32_div (Fin (vec_y (wall_size wall))) (Fin 2)) = box_half_extents wall"
    by (simp add: box_half_extents_def)
  have b: "FVec2 (f32_add (Fin (vec_x (position wall))) (fvec_x (box_half_extents wall)))
      (f32_add (Fin (vec_y (position wall))) (fvec_y (box_half_extents wall))) = box_center wall"
    by (simp add: box_center_def fvec_add_def fvec_def)
  show ?thesis
    unfolding check_wall_collision_def Let_def c h b glm_clamp_components
    by (simp add: center_to_closest_def closest_point_def Let_def)
qed

text \<open>The player of radius 0.5 against the unit box at the origin.\<close>

lemmas collision_eval =
  center_to_closest_def closest_point_def circle_center_def box_center_def box_half_extents_def
  clamp_component_def raw_difference_def player_level_def unit_wall_def Level_ctor_def
  Player_ctor_def Wall_ctor_def fvec_def fvec_add_def fvec_sub_def f32_sub_def Let_def
  rnd_values

lemma center_to_closest_sides:
  "center_to_closest (player (player_level (Vec2 (3 / 4) 0))) unit_wall =
     FVec2 (Fin (- (1 / 4))) (Fin 0)"
  "center_to_closest (player (player_level (Vec2 (- (3 / 4)) 0))) unit_wall =
     FVec2 (Fin (1 / 4)) (Fin 0)"
  "center_to_closest (player (player_level (Vec2 0 (3 / 4)))) unit_wall =
     FVec2 (Fin 0) (Fin (- (1 / 4)))"
  "center_to_closest (player (player_level (Vec2 0 (- (3 / 4))))) unit_wall =
     FVec2 (Fin 0) (Fin (1 / 4))"
  by (simp_all add: collision_eval)

lemma center_to_closest_touching:
  "center_to_closest (player (player_level (Vec2 1 0))) unit_wall =
     FVec2 (Fin (- (1 / 2))) (Fin 0)"
  "center_to_closest (player (player_level (Vec2 (16777215 / 16777216) 0))) unit_wall =
     FVec2 (Fin (- (1 / 2))) (Fin 0)"
  by (simp_all add: collision_eval)

lemma center_to_closest_inside:
  "center_to_closest (player (player_level (Vec2 0 0))) unit_wall = FVec2 (Fin 0) (Fin 0)"
  by (simp add: collision_eval)

lemma raw_difference_right:
  "raw_difference (player (player_level (Vec2 (3 / 4) 0))) unit_wall =
     FVec2 (Fin (3 / 4)) (Fin 0)"
  by (simp add: collision_eval)

lemma glm_length_values:
  "glm_length (FVec2 (Fin (- (1 / 4))) (Fin 0)) = Fin (1 / 4)"
  "glm_length (FVec2 (Fin (1 / 4)) (Fin 0)) = Fin (1 / 4)"
  "glm_length (FVec2 (Fin 0) (Fin (- (1 / 4)))) = Fin (1 / 4)"
  "glm_length (FVec2 (Fin 0) (Fin (1 / 4))) = Fin (1 / 4)"
  "glm_length (FVec2 (Fin (- (1 / 2))) (Fin 0)) = Fin (1 / 2)"
  "glm_length (FVec2 (Fin 0) (Fin 0)) = Fin 0"
  by (simp_all add: glm_length_def glm_dot_def rnd_values sqrt_values)

lemma radius_player_level: "Player.radius (player (player_level pos)) = 1 / 2"
  by (simp add: player_level_def Level_ctor_def Player_ctor_def)

lemma first_best_LEFT_of: "first_best (dot_product (FVec2 (Fin (- (1 / 4))) (Fin 0))) 3"
  by (simp add: first_best_cases dot_product_eval f32_gt_def)

lemma first_best_RIGHT_of: "first_best (dot_product (FVec2 (Fin (1 / 4)) (Fin 0))) 1"
  by (simp add: first_best_cases dot_product_eval f32_gt_def del: One_nat_def)

lemma first_best_DOWN_of: "first_best (dot_product (FVec2 (Fin 0) (Fin (- (1 / 4))))) 2"
  by (simp add: first_best_cases dot_product_eval f32_gt_def)

lemma first_best_UP_of: "first_best (dot_product (FVec2 (Fin 0) (Fin (1 / 4)))) 0"
  by (simp add: first_best_cases dot_product_eval f32_gt_def)

lemma first_best_RIGHT_of_raw: "first_best (dot_product (FVec2 (Fin (3 / 4)) (Fin 0))) 1"
  by (simp add: first_best_cases dot_product_eval f32_gt_def del: One_nat_def)

lemma cardinals_nth:
  "cardinals ! 0 = Direction.UP" "cardinals ! 1 = Direction.RIGHT"
  "cardinals ! Suc 0 = Direction.RIGHT"
  "cardinals ! 2 = Direction.DOWN" "cardinals ! 3 = Direction.LEFT"
  by (simp_all add: cardinals_def numeral_2_eq_2 numeral_3_eq_3)

text \<open>
  Claim C2, as stated, does not hold. The direction reported is not the direction of the raw
  difference of the two centres: the variable \<^verbatim>\<open>difference\<close> is assigned the vector from the
  circle centre to the closest point before \<^verbatim>\<open>vector_direction\<close> is called. With the player
  at (0.75, 0) the circle centre (1.25, 0.5) is to the right of the unit box at the origin:
  the raw difference is (0.75, 0), of direction RIGHT, and the function reports LEFT.
\<close>

theorem check_wall_collision_raw_counterexample:
  "fst (check_wall_collision (player_level (Vec2 (3 / 4) 0)) unit_wall) \<and>
   fst (snd (check_wall_collision (player_level (Vec2 (3 / 4) 0)) unit_wall)) = Direction.LEFT \<and>
   raw_difference (player (player_level (Vec2 (3 / 4) 0))) unit_wall =
     FVec2 (Fin (3 / 4)) (Fin 0) \<and>
   vector_direction (raw_difference (player (player_level (Vec2 (3 / 4) 0))) unit_wall) =
     Direction.RIGHT"
  by (simp add: check_wall_collision_eq center_to_closest_sides glm_length_values
      radius_player_level raw_difference_right vector_direction_at [OF first_best_LEFT_of]
      vector_direction_at [OF first_best_RIGHT_of_raw] cardinals_nth)

text \<open>
  Claim C2, amended. All values are binary32. With the circle centre
  \<^verbatim>\<open>player.position + player.radius\<close> (on both axes), the box centre and the half extents,
  the closest point is the box centre plus the difference of the centres clamped to the half
  extents, and \<open>d\<close> is the vector from the circle centre to the closest point. A collision is
  reported exactly when the length of \<open>d\<close> is strictly less than \<^verbatim>\<open>player.radius\<close>. On a
  collision the vector returned is \<open>d\<close> and the direction is that of \<open>d\<close>: the cardinal
  direction at the first best index of the dot products of \<open>d\<close> normalised when one of them is
  positive, and the value 0xFFFFFFFF, none of the four directions, when none is positive (as
  for \<open>d\<close> = 0, when the circle centre is in the box). Without collision the result is UP and
  the zero vector.
\<close>

theorem check_wall_collision_closest:
  "(fst (check_wall_collision lvl wall) \<longleftrightarrow>
      f32_lt (glm_length (center_to_closest (player lvl) wall))
        (Fin (Player.radius (player lvl)))) \<and>
   (fst (check_wall_collision lvl wall) \<longrightarrow>
      snd (snd (check_wall_collision lvl wall)) = center_to_closest (player lvl) wall) \<and>
   (fst (check_wall_collision lvl wall) \<and>
    \<not> none_positive (dot_product (center_to_closest (player lvl) wall)) \<longrightarrow>
      (\<exists>i. first_best (dot_product (center_to_closest (player lvl) wall)) i \<and>
           fst (snd (check_wall_collision lvl wall)) = cardinals ! i)) \<and>
   (fst (check_wall_collision lvl wall) \<and>
    none_positive (dot_product (center_to_closest (player lvl) wall)) \<longrightarrow>
      fst (snd (check_wall_collision lvl wall)) = Direction_value (- 1)) \<and>
   (\<not> fst (check_wall_collision lvl wall) \<longrightarrow>
      check_wall_collision lvl wall = (False, Direction.UP, FVec2 (Fin 0) (Fin 0)))"
proof -
  define d where "d = center_to_closest (player lvl) wall"
  define hit where "hit = f32_lt (glm_length d) (Fin (Player.radius (player lvl)))"
  have r: "check_wall_collision lvl wall =
      (if hit then (True, vector_direction d, d) else (False, Direction.UP, FVec2 (Fin 0) (Fin 0)))"
    unfolding hit_def d_def by (rule check_wall_collision_eq)
  have "(fst (check_wall_collision lvl wall) \<longleftrightarrow> hit) \<and>
   (fst (check_wall_collision lvl wall) \<longrightarrow> snd (snd (check_wall_collision lvl wall)) = d) \<and>
   (fst (check_wall_collision lvl wall) \<and> \<not> none_positive (dot_product d) \<longrightarrow>
      (\<exists>i. first_best (dot_product d) i \<and>
           fst (snd (check_wall_collision lvl wall)) = cardinals ! i)) \<and>
   (fst (check_wall_collision lvl wall) \<and> none_positive (dot_product d) \<longrightarrow>
      fst (snd (check_wall_collision lvl wall)) = Direction_value (- 1)) \<and>
   (\<not> fst (check_wall_collision lvl wall) \<longrightarrow>
      check_wall_collision lvl wall = (False, Direction.UP, FVec2 (Fin 0) (Fin 0)))"
  proof (cases hit)
    case True
    with r have "check_wall_collision lvl wall = (True, vector_direction d, d)" by simp
    with True vector_direction_result [of d] show ?thesis by simp
  next
    case False
    with r show ?thesis by simp
  qed
  then show ?thesis unfolding hit_def d_def .
qed

text \<open>The player overlapping the box from the right, from the left, from above and from
  below, by a quarter of a cell: the direction points from the circle centre to the box.
  At (1, 0) the circle touches the box and there is no collision; nor is there at
  (1 - 1 / 2 ^ 24, 0), where the centre rounds to the same point. At (0, 0) the circle centre is
  the box centre, the vector is zero and the direction is no cardinal direction.\<close>

theorem check_wall_collision_closest_witness:
  "check_wall_collision (player_level (Vec2 (3 / 4) 0)) unit_wall =
     (True, Direction.LEFT, FVec2 (Fin (- (1 / 4))) (Fin 0)) \<and>
   check_wall_collision (player_level (Vec2 (- (3 / 4)) 0)) unit_wall =
     (True, Direction.RIGHT, FVec2 (Fin (1 / 4)) (Fin 0)) \<and>
   check_wall_collision (player_level (Vec2 0 (3 / 4))) unit_wall =
     (True, Direction.DOWN, FVec2 (Fin 0) (Fin (- (1 / 4)))) \<and>
   check_wall_collision (player_level (Vec2 0 (- (3 / 4)))) unit_wall =
     (True, Direction.UP, FVec2 (Fin 0) (Fin (1 / 4))) \<and>
   check_wall_collision (player_level (Vec2 1 0)) unit_wall =
     (False, Direction.UP, FVec2 (Fin 0) (Fin 0)) \<and>
   check_wall_collision (player_level (Vec2 (16777215 / 16777216) 0)) unit_wall =
     (False, Direction.UP, FVec2 (Fin 0) (Fin 0)) \<and>
   check_wall_collision (player_level (Vec2 0 0)) unit_wall =
     (True, Direction_value (- 1), FVec2 (Fin 0) (Fin 0))"
proof -
  have side: "check_wall_collision (player_level pos) unit_wall = (True, cardinals ! i, d)"
    if "center_to_closest (player (player_level pos)) unit_wall = d"
      and "glm_length d = Fin (1 / 4)" and "first_best (dot_product d) i" for pos d i
  proof -
    let ?r = "check_wall_collision (player_level pos) unit_wall"
    note c = check_wall_collision_closest [of "player_level pos" unit_wall]
    from c that(1,2) have hit: "fst ?r" by (simp add: radius_player_level)
    with c that(1) have v: "snd (snd ?r) = d" by simp
    from that(3) have "\<not> none_positive (dot_product d)"
      unfolding first_best_def none_positive_def by blast
    with c hit that(1) obtain k where
      k: "first_best (dot_product d) k" "fst (snd ?r) = cardinals ! k" by auto
    from first_best_unique [OF that(3) k(1)] k(2) have "fst (snd ?r) = cardinals ! i" by simp
    with hit v show ?thesis by (cases ?r) simp
  qed
  have apart: "check_wall_collision (player_level pos) unit_wall =
      (False, Direction.UP, FVec2 (Fin 0) (Fin 0))"
    if "center_to_closest (player (player_level pos)) unit_wall = d"
      and "glm_length d = Fin (1 / 2)" for pos d
    using check_wall_collision_closest [of "player_level pos" unit_wall] that
    by (simp add: radius_player_level)
  have inside: "check_wall_collision (player_level (Vec2 0 0)) unit_wall =
      (True, Direction_value (- 1), FVec2 (Fin 0) (Fin 0))"
  proof -
    let ?r = "check_wall_collision (player_level (Vec2 0 0)) unit_wall"
    note c = check_wall_collision_closest [of "player_level (Vec2 0 0)" unit_wall]
    have n: "none_positive (dot_product (FVec2 (Fin 0) (Fin 0)))"
      by (simp add: none_positive_def dot_product_zero f32_gt_def)
    from c have hit: "fst ?r"
      by (simp add: radius_player_level center_to_closest_inside glm_length_values)
    with c have "snd (snd ?r) = FVec2 (Fin 0) (Fin 0)"
      by (simp add: center_to_closest_inside)
    moreover from c hit n have "fst (snd ?r) = Direction_value (- 1)"
      by (simp add: center_to_closest_inside)
    ultimately show ?thesis using hit by (cases ?r) simp
  qed
  show ?thesis
    using side [OF center_to_closest_sides(1) glm_length_values(1) first_best_LEFT_of]
      side [OF center_to_closest_sides(2) glm_length_values(2) first_best_RIGHT_of]
      side [OF center_to_closest_sides(3) glm_length_values(3) first_best_DOWN_of]
      side [OF center_to_closest_sides(4) glm_length_values(4) first_best_UP_of]
      apart [OF center_to_closest_touching(1) glm_length_values(5)]
      apart [OF center_to_closest_touching(2) glm_length_values(5)]
      inside
    by (simp add: cardinals_nth)
qed

subsection \<open>Game::update: the physics of the player\<close>

text \<open>The acceleration of a frame: on each axis the flag tested last decides (right over
  left, down over up); the displacement and the new velocity of the frame are computed from
  this one acceleration and the velocity before the frame.\<close>

lemma tilt_acceleration_eq:
  "tilt_acceleration g =
     Vec2 (if tilt_right (controls g) then calculate_acceleration (- TILT_ANGLE) (gravity g)
           else if tilt_left (controls g) then calculate_acceleration TILT_ANGLE (gravity g)
           else 0)
          (if tilt_down (controls g) then calculate_acceleration TILT_ANGLE (gravity g)
           else if tilt_up (controls g) then calculate_acceleration (- TILT_ANGLE) (gravity g)
           else 0)"
  by (simp add: tilt_acceleration_def Let_def)

lemma calculate_displacement_eq:
  "calculate_displacement t v a =
     Vec2 (vec_x v * t + (1 / 2) * vec_x a * t\<^sup>2) (vec_y v * t + (1 / 2) * vec_y a * t\<^sup>2)"
  by (simp add: calculate_displacement_def vadd_def vscale_def)

lemma integrate_player_eq:
  "player_acceleration (integrate_player t g) = tilt_acceleration g \<and>
   position (player (level (integrate_player t g))) =
     vadd (position (player (level g)))
          (calculate_displacement t (Player.velocity (player (level g))) (tilt_acceleration g)) \<and>
   Player.velocity (player (level (integrate_player t g))) =
     vadd (Player.velocity (player (level g))) (vscale (tilt_acceleration g) t)"
  by (simp add: integrate_player_def Let_def vadd_def)

text \<open>The sine of 45 radians. From the value 1/2 of the sine at \<open>pi / 6\<close> and the Maclaurin
  polynomial of degree 3 of the sine, \<open>pi\<close> lies between 3.1038 and 3.1578; so 45 radians
  are 14 \<open>pi\<close> plus an angle between \<open>pi / 4\<close> and \<open>pi / 2\<close>, and the sine of 45 radians
  is greater than that of 45 degrees.\<close>

lemma sin_poly_bound:
  fixes t :: real
  shows "\<bar>sin t - (t - t ^ 3 / 6)\<bar> \<le> \<bar>t\<bar> ^ 5 / 120"
proof -
  have sum5: "(\<Sum>m<5. g m) = g 0 + g 1 + g 2 + g 3 + g 4" for g :: "nat \<Rightarrow> real"
    by (simp add: eval_nat_numeral)
  have c1: "sin_coeff 1 = 1" and c2: "sin_coeff 2 = 0" and c4: "sin_coeff 4 = 0"
    by (simp_all add: sin_coeff_def)
  have c3: "sin_coeff 3 = - 1 / 6"
    by (simp add: sin_coeff_def fact_numeral numeral_3_eq_3)
  have p: "(\<Sum>m<5. sin_coeff m * t ^ m) = t - t ^ 3 / 6"
    unfolding sum5 c1 c2 c3 c4 by simp
  have "fact 5 = (120 :: real)"
    by (simp add: fact_numeral)
  then have f: "inverse (fact 5) * \<bar>t\<bar> ^ 5 = \<bar>t\<bar> ^ 5 / 120"
    by (simp add: field_simps)
  have "\<bar>sin t - (\<Sum>m<5. sin_coeff m * t ^ m)\<bar> \<le> inverse (fact 5) * \<bar>t\<bar> ^ 5"
    by (rule Maclaurin_sin_bound)
  then show ?thesis unfolding p f .
qed

lemma poly_lower:
  fixes t :: real
  assumes "lo \<le> t" "t \<le> hi" "0 \<le> lo" "hi\<^sup>2 / 6 + hi ^ 4 / 120 \<le> c" "c \<le> 1"
  shows "lo * (1 - c) \<le> t - t ^ 3 / 6 - t ^ 5 / 120"
proof -
  from assms have t0: "0 \<le> t" by linarith
  have t2: "t\<^sup>2 \<le> hi\<^sup>2" using assms t0 by (intro power_mono) auto
  have t4: "t ^ 4 \<le> hi ^ 4" using assms t0 by (intro power_mono) auto
  have "t ^ 3 / 6 + t ^ 5 / 120 = t * (t\<^sup>2 / 6 + t ^ 4 / 120)"
    by (simp add: power_numeral_reduce field_simps)
  also have "\<dots> \<le> t * c"
    using t2 t4 assms(4) t0 by (intro mult_left_mono) auto
  finally have "t - t ^ 3 / 6 - t ^ 5 / 120 \<ge> t * (1 - c)"
    by (simp add: algebra_simps)
  moreover have "lo * (1 - c) \<le> t * (1 - c)"
    using assms by (intro mult_right_mono) auto
  ultimately show ?thesis by linarith
qed

lemma pi_upper: "pi < 31578 / 10000"
proof (rule ccontr)
  assume "\<not> pi < 31578 / 10000"
  define t where "t = pi / 6"
  have lo: "5263 / 10000 \<le> t" using \<open>\<not> pi < 31578 / 10000\<close> by (simp add: t_def)
  have hi: "t < 2 / 3" using pi_less_4 by (simp add: t_def)
  have s: "sin t = 1 / 2" by (simp add: t_def sin_30)
  have "\<bar>t\<bar> = t" using lo by simp
  with sin_poly_bound [of t] have "\<bar>1 / 2 - (t - t ^ 3 / 6)\<bar> \<le> t ^ 5 / 120"
    unfolding s by simp
  then have "t - t ^ 3 / 6 - t ^ 5 / 120 \<le> 1 / 2"
    by linarith
  moreover have "1 / 2 < t - t ^ 3 / 6 - t ^ 5 / 120"
  proof -
    consider "t \<le> 535 / 1000" | "535 / 1000 \<le> t" "t \<le> 56 / 100" | "56 / 100 \<le> t"
      by linarith
    then show ?thesis
    proof cases
      case 1
      from poly_lower [OF lo 1, of "48387 / 1000000"] show ?thesis
        by (simp add: power_numeral_reduce)
    next
      case 2
      from poly_lower [OF 2, of "53087 / 1000000"] show ?thesis
        by (simp add: power_numeral_reduce)
    next
      case 3
      from poly_lower [OF 3, of "2 / 3" "7573 / 100000"] hi show ?thesis
        by (simp add: power_numeral_reduce)
    qed
  qed
  ultimately show False by linarith
qed

lemma pi_lower: "31038 / 10000 < pi"
proof (rule ccontr)
  assume "\<not> 31038 / 10000 < pi"
  define t where "t = pi / 6"
  have hi: "t \<le> 5173 / 10000" using \<open>\<not> 31038 / 10000 < pi\<close> by (simp add: t_def)
  have t0: "0 < t" by (simp add: t_def)
  have s: "sin t = 1 / 2" by (simp add: t_def sin_30)
  have "\<bar>t\<bar> = t" using t0 by simp
  with sin_poly_bound [of t] have "\<bar>1 / 2 - (t - t ^ 3 / 6)\<bar> \<le> t ^ 5 / 120"
    unfolding s by simp
  then have ge: "1 / 2 \<le> t - t ^ 3 / 6 + t ^ 5 / 120"
    by linarith
  have t2: "t\<^sup>2 \<le> (5173 / 10000)\<^sup>2" using hi t0 by (intro power_mono) auto
  have e: "t - t ^ 3 / 6 + t ^ 5 / 120 = t - t ^ 3 * (1 / 6 - t\<^sup>2 / 120)"
    by (simp add: power_numeral_reduce field_simps)
  have k: "164 / 1000 \<le> 1 / 6 - t\<^sup>2 / 120"
    using t2 by (simp add: power_numeral_reduce)
  show False
  proof (cases "t \<le> 49 / 100")
    case True
    have "0 \<le> t ^ 3 * (1 / 6 - t\<^sup>2 / 120)"
      using t0 k by (intro mult_nonneg_nonneg) auto
    with ge e True show False by linarith
  next
    case False
    then have "(49 / 100) ^ 3 \<le> t ^ 3" by (intro power_mono) auto
    then have "(49 / 100) ^ 3 * (164 / 1000) \<le> t ^ 3 * (1 / 6 - t\<^sup>2 / 120)"
      using k t0 by (intro mult_mono) auto
    with ge e hi show False by (simp add: power_numeral_reduce)
  qed
qed

lemma sin_45_radians: "sin (45 :: real) = sin (45 - 14 * pi)"
proof -
  have "sin (45 :: real) = sin ((45 - 14 * pi) + 14 * pi)" by simp
  also have "\<dots> = sin (45 - 14 * pi)"
    unfolding sin_add [of "45 - 14 * pi" "14 * pi"]
    by simp
  finally show ?thesis .
qed

lemma sin_45_radians_gt: "sin (pi / 4) < sin (45 :: real)"
proof -
  have a: "pi / 4 < 45 - 14 * pi" using pi_upper by simp
  have b: "45 - 14 * pi \<le> pi / 2" using pi_lower by simp
  have "sin (pi / 4) < sin (45 - 14 * pi)"
    using a b pi_gt_zero by (subst sin_mono_less_eq) auto
  then show ?thesis by (simp add: sin_45_radians)
qed

text \<open>
  Claim C7. The claim has the acceleration of a tilted axis be (2/3) * gravity * sin of an
  incline angle of 45 degrees. The source passes \<^verbatim>\<open>TILT_ANGLE = 45.0f\<close> to \<^verbatim>\<open>std::sin\<close>, which
  reads radians. With the board tilted to the left and the gravity -9.8, the acceleration on
  X is (2/3) * (-9.8) * sin(45 rad), which is not (2/3) * (-9.8) * sin(45 degrees) but a
  stronger acceleration; the displacement and the new velocity of the frame are computed
  from it.
\<close>

theorem tilt_acceleration_radians:
  "tilt_acceleration tilted_game = Vec2 (2 / 3 * (- 98 / 10) * sin 45) 0 \<and>
   player_acceleration (integrate_player (1 / 4) tilted_game) = tilt_acceleration tilted_game \<and>
   vec_x (tilt_acceleration tilted_game) < 2 / 3 * (- 98 / 10) * sin (pi / 4) \<and>
   sin (pi / 4) = sqrt 2 / 2"
proof -
  have a: "tilt_acceleration tilted_game = Vec2 (2 / 3 * (- 98 / 10) * sin 45) 0"
    by (simp add: tilt_acceleration_eq tilted_game_def board_game_def
        calculate_acceleration_def TILT_ANGLE_def)
  have "2 / 3 * (- 98 / 10) * sin (45 :: real) < 2 / 3 * (- 98 / 10) * sin (pi / 4)"
    using sin_45_radians_gt by simp
  with a show ?thesis
    by (simp add: integrate_player_eq sin_45)
qed

end
